theory Spec2Isabelle
  imports Main "HOL-Library.Sublist"
begin

section \<open>Data model of the trace scanner (parseScannerResult.ts)\<close>

text \<open>
  JavaScript objects used as dictionaries (\<open>opcodes\<close>, \<open>access\<close>, \<open>contractSize\<close>,
  \<open>reads\<close>, \<open>writes\<close>, the returned storage map) are association lists in insertion
  order, which is the order of \<open>Object.keys\<close> and \<open>Object.entries\<close> for keys that are not
  array indices. A property that is \<open>undefined\<close> is \<open>None\<close>.
\<close>

datatype entityTitle = factory | account | paymaster

record StakeInfo =
  addr :: string
  stake :: int
  unstakeDelaySec :: int

record UserOperation =
  sender :: string
  initCode :: string

record ValidationResult =
  factoryInfo :: "StakeInfo option"
  senderInfo :: "StakeInfo option"
  paymasterInfo :: "StakeInfo option"

record AccessInfo =
  reads :: "(string \<times> string) list"
  writes :: "(string \<times> nat) list"

text \<open>
  One entry of \<open>level.calls\<close>. A call entry carries \<open>from\<close>, \<open>to\<close>, \<open>method\<close> and
  \<open>value\<close>; an exit entry (\<open>RETURN\<close>, \<open>REVERT\<close>) carries \<open>data\<close>. The source reads all of
  them through one untyped object, so they are the fields of one record. The \<open>value\<close> of
  a call is kept as the number it denotes.
\<close>

record CallEvent =
  ev_type :: string
  ev_to :: "string option"
  ev_from :: "string option"
  ev_method :: string
  ev_value :: "int option"
  ev_data :: string

record TopLevelCallInfo =
  topLevelMethodSig :: string
  opcodes :: "(string \<times> nat) list"
  access :: "(string \<times> AccessInfo) list"
  contractSize :: "(string \<times> nat) list"
  oog :: "bool option"
  calls :: "CallEvent list"

record BundlerCollectorReturn =
  callsFromEntryPoint :: "TopLevelCallInfo list"
  keccak :: "string list"

text \<open>
  The parsed \<open>return\<close> of a call entry: the decoded result of the ABI (its named fields),
  the raw return data when decoding failed, or the text \<open>len=n\<close> of a creation.
\<close>

datatype returnValue =
    Decoded "(string \<times> string) list"
  | RawData string
  | LenText nat

record CallEntry =
  ce_to :: "string option"
  ce_from :: "string option"
  ce_type :: string
  ce_method :: "string option"
  ce_revert :: "returnValue option"
  ce_return :: "returnValue option"
  ce_value :: "int option"

text \<open>
  The ABI registry \<open>xfaces\<close> is built from contract interfaces that are not part of the
  sources; it is a parameter. \<open>getFunction\<close> gives the name of the fragment found, and
  each lookup or decoding that throws is \<open>None\<close> (the source wraps them in \<open>callCatch\<close>).
  The three selectors of \<open>callsFromEntryPointMethodSigs\<close> and \<open>keccak256\<close> are parameters
  as well; \<open>keccak256\<close> is total on the preimages that the tracer records. The calls of
  \<open>debug\<close> only log and are left out.
\<close>

record Interface =
  getFunction :: "string \<Rightarrow> string option"
  parseError :: "string \<Rightarrow> (string \<times> string) list option"
  decodeFunctionResult :: "string \<Rightarrow> string \<Rightarrow> (string \<times> string) list option"

record Deps =
  xfaces :: Interface
  callsFromEntryPointMethodSigs :: "entityTitle \<Rightarrow> string"
  keccak256 :: "string \<Rightarrow> string"

subsection \<open>Failures\<close>

text \<open>
  One constructor for each message template of the source:
  \<^item> \<open>IllegalCallIntoEntryPoint m\<close>: "illegal call into EntryPoint during validation m"
  \<^item> \<open>MayNotCallWithValue\<close>: "May not may CALL with value"
  \<^item> \<open>RevertsOnOog t\<close>: "t internally reverts on oog"
  \<^item> \<open>UsesBannedOpcode t op\<close>: "t uses banned opcode: op"
  \<^item> \<open>TooManyCREATE2 t\<close>: "t with too many CREATE2"
  \<^item> \<open>ForbiddenAccess t rw name slot\<close>: "t has forbidden rw name slot slot"
  \<^item> \<open>UnstakedAccessed t name slot\<close>: "unstaked t accessed name slot slot"
  \<^item> \<open>UnstakedPaymasterContext\<close>: "unstaked paymaster must not return context"
  \<^item> \<open>AccessesUndeployed t sizes\<close>: "t accesses un-deployed contract sizes"
\<close>

datatype message =
    IllegalCallIntoEntryPoint "string option"
  | MayNotCallWithValue
  | RevertsOnOog entityTitle
  | UsesBannedOpcode entityTitle string
  | TooManyCREATE2 entityTitle
  | ForbiddenAccess entityTitle string string string
  | UnstakedAccessed entityTitle string "string option"
  | UnstakedPaymasterContext
  | AccessesUndeployed entityTitle "(string \<times> nat) list"

text \<open>
  \<open>RpcError\<close> is what \<open>requireCond\<close> throws (always with the code
  \<open>ValidationErrors.OpcodeValidation\<close>), with its optional data \<open>{[entityTitle]: addr}\<close>.
  The three \<open>Error_\<close> constructors are the plain \<open>Error\<close>s of the source;
  \<open>ArgumentError\<close> is an exception of the ethers library on an ill-formed string.
\<close>

datatype failure =
    Error_no_calls
  | Error_missing_trace
  | Error_not_in_userOp entityTitle "(string \<times> AccessInfo) list"
  | RpcError message "(entityTitle \<times> string option) option"
  | ArgumentError

type_synonym 'a result = "failure + 'a"

definition bindE :: "'a result \<Rightarrow> ('a \<Rightarrow> 'b result) \<Rightarrow> 'b result" where
  "bindE m f = (case m of Inl e \<Rightarrow> Inl e | Inr x \<Rightarrow> f x)"

definition thenE :: "unit result \<Rightarrow> 'b result \<Rightarrow> 'b result" where
  "thenE m k = (case m of Inl e \<Rightarrow> Inl e | Inr _ \<Rightarrow> k)"

text \<open>A \<open>forEach\<close> whose body may throw and that updates a captured variable.\<close>

fun foldE :: "('a \<Rightarrow> 's \<Rightarrow> 's result) \<Rightarrow> 'a list \<Rightarrow> 's \<Rightarrow> 's result" where
  "foldE f [] s = Inr s"
| "foldE f (x # xs) s = (case f x s of Inl e \<Rightarrow> Inl e | Inr s' \<Rightarrow> foldE f xs s')"

text \<open>A \<open>forEach\<close> whose body may throw and updates nothing.\<close>

fun forEachE :: "('a \<Rightarrow> unit result) \<Rightarrow> 'a list \<Rightarrow> unit result" where
  "forEachE f [] = Inr ()"
| "forEachE f (x # xs) = (case f x of Inl e \<Rightarrow> Inl e | Inr _ \<Rightarrow> forEachE f xs)"

text \<open>
  Modelled from the spec: \<open>requireCond\<close> (utils.ts) is not among the sources. It throws
  the policy violation with the given message and data when the condition is false, and
  does nothing otherwise: every call of the source passes the condition that must hold.
\<close>

definition requireCond ::
  "bool \<Rightarrow> message \<Rightarrow> (entityTitle \<times> string option) option \<Rightarrow> unit result" where
  "requireCond cond msg data = (if \<not> cond then Inl (RpcError msg data) else Inr ())"

subsection \<open>Strings and numbers of the libraries\<close>

definition lowerChar :: "char \<Rightarrow> char" where
  "lowerChar c =
     (case map_of (zip ''ABCDEFGHIJKLMNOPQRSTUVWXYZ'' ''abcdefghijklmnopqrstuvwxyz'') c of
        None \<Rightarrow> c
      | Some l \<Rightarrow> l)"

definition toLowerCase :: "string \<Rightarrow> string" where
  "toLowerCase s = map lowerChar s"

text \<open>\<open>s.match(/X/) != null\<close> for a literal \<open>X\<close>: \<open>X\<close> occurs somewhere in \<open>s\<close>.\<close>

fun matchLiteral :: "string \<Rightarrow> string \<Rightarrow> bool" where
  "matchLiteral x [] = (x = [])"
| "matchLiteral x (c # s) = (prefix x (c # s) \<or> matchLiteral x s)"

definition hexDigit :: "char \<Rightarrow> int option" where
  "hexDigit c =
     map_of (zip ''0123456789abcdefABCDEF''
               [0, 1, 2, 3, 4, 5, 6, 7, 8, 9, 10, 11, 12, 13, 14, 15, 10, 11, 12, 13, 14, 15]) c"

definition decDigit :: "char \<Rightarrow> int option" where
  "decDigit c = map_of (zip ''0123456789'' [0, 1, 2, 3, 4, 5, 6, 7, 8, 9]) c"

text \<open>The number written by the digits \<open>s\<close> in the given base; \<open>None\<close> on any other character.\<close>

fun digitsValue :: "int \<Rightarrow> (char \<Rightarrow> int option) \<Rightarrow> int \<Rightarrow> string \<Rightarrow> int option" where
  "digitsValue b d acc [] = Some acc"
| "digitsValue b d acc (c # s) =
     (case d c of None \<Rightarrow> None | Some v \<Rightarrow> digitsValue b d (b * acc + v) s)"

text \<open>ethers \<open>isHexString(value)\<close>: the pattern \<open>^0x[0-9A-Fa-f]*$\<close>.\<close>

definition isHexString :: "string \<Rightarrow> bool" where
  "isHexString s = (prefix ''0x'' s \<and> list_all (\<lambda>c. hexDigit c \<noteq> None) (drop 2 s))"

text \<open>
  ethers \<open>hexZeroPad(value, length)\<close> on a string: an argument error unless the value is a
  hex string of at most \<open>length\<close> bytes, and otherwise zeros are inserted after \<open>0x\<close> until
  the string has \<open>2 * length + 2\<close> characters.
\<close>

definition hexZeroPad :: "string \<Rightarrow> nat \<Rightarrow> string option" where
  "hexZeroPad v len =
     (if \<not> isHexString v then None
      else if length v > 2 * len + 2 then None
      else Some (''0x'' @ replicate (2 * len + 2 - length v) (CHR ''0'') @ drop 2 v))"

text \<open>
  Modelled from the spec: \<open>toBytes32\<close> (modules/moduleUtils.ts) is not among the sources.
  It left-pads the address to the 32 bytes of a hash input word, in lower case.
\<close>

definition toBytes32 :: "string \<Rightarrow> string option" where
  "toBytes32 b = hexZeroPad (toLowerCase b) 32"

text \<open>
  ethers \<open>BigNumber.from(s)\<close> on a string, as the number it denotes: an optional minus sign
  followed by \<open>0x\<close> and at least one hex digit, or by at least one decimal digit; an
  argument error on any other string.
\<close>

definition unsignedValue :: "string \<Rightarrow> int option" where
  "unsignedValue s =
     (if isHexString s \<and> drop 2 s \<noteq> [] then digitsValue 16 hexDigit 0 (drop 2 s)
      else if s \<noteq> [] then digitsValue 10 decDigit 0 s
      else None)"

definition BigNumber_from :: "string \<Rightarrow> int option" where
  "BigNumber_from s =
     (case s of
        [] \<Rightarrow> None
      | c # r \<Rightarrow>
          if c = CHR ''-'' then map_option uminus (unsignedValue r)
          else unsignedValue s)"

text \<open>
  Where the source compares two \<open>BigNumber\<close>s with \<open>!==\<close>, it compares objects, not
  numbers. \<open>BigNumber.from\<close> on a number allocates a new object: \<open>newBigNumber n v\<close> is the
  object made from \<open>v\<close> when \<open>n\<close> objects exist, with the new count.
\<close>

datatype BigNumber = BigNumber (bn_ref: nat) (bn_val: int)

definition newBigNumber :: "nat \<Rightarrow> int \<Rightarrow> BigNumber \<times> nat" where
  "newBigNumber n v = (BigNumber n v, Suc n)"

definition strictNotEqual :: "BigNumber \<Rightarrow> BigNumber \<Rightarrow> bool" where
  "strictNotEqual a b = (bn_ref a \<noteq> bn_ref b)"

section \<open>parseCallStack\<close>

text \<open>The frame used when an exit entry finds the stack empty.\<close>

definition topFrame :: CallEvent where
  "topFrame = \<lparr>ev_type = ''top'', ev_to = None, ev_from = None,
     ev_method = ''validateUserOp'', ev_value = None, ev_data = []\<rparr>"

text \<open>
  The call entry pushed to \<open>out\<close> for the exit entry \<open>c\<close> that closes the frame \<open>topf\<close>
  (\<open>top\<close> in the source).
\<close>

definition resolveCall :: "Interface \<Rightarrow> CallEvent \<Rightarrow> CallEvent \<Rightarrow> CallEntry" where
  "resolveCall xf topf c =
     (let returnData = ev_data c in
      if matchLiteral ''CREATE'' (ev_type topf) then
        \<lparr>ce_to = ev_to topf, ce_from = ev_from topf, ce_type = ev_type topf,
         ce_method = Some [], ce_revert = None,
         ce_return = Some (LenText (length returnData)), ce_value = None\<rparr>
      else
        let method = getFunction xf (ev_method topf) in
        if ev_type c = ''REVERT'' then
          \<lparr>ce_to = ev_to topf, ce_from = ev_from topf, ce_type = ev_type topf,
           ce_method = method,
           ce_revert = Some (case parseError xf returnData of
                               None \<Rightarrow> RawData returnData | Some e \<Rightarrow> Decoded e),
           ce_return = None, ce_value = ev_value topf\<rparr>
        else
          \<lparr>ce_to = ev_to topf, ce_from = ev_from topf, ce_type = ev_type topf,
           ce_method = Some (case method of None \<Rightarrow> ev_method topf | Some name \<Rightarrow> name),
           ce_revert = None,
           ce_return = Some (case method of
                               None \<Rightarrow> RawData returnData
                             | Some name \<Rightarrow>
                                 (case decodeFunctionResult xf name returnData of
                                    None \<Rightarrow> RawData returnData | Some r \<Rightarrow> Decoded r)),
           ce_value = None\<rparr>)"

text \<open>
  One step of the \<open>forEach\<close> over the call entries; the state is \<open>(out, stack)\<close>, the stack
  with its top first.
\<close>

definition parseStep ::
  "Interface \<Rightarrow> CallEntry list \<times> CallEvent list \<Rightarrow> CallEvent
     \<Rightarrow> CallEntry list \<times> CallEvent list" where
  "parseStep xf st c =
     (case st of (out, stack) \<Rightarrow>
        if matchLiteral ''REVERT'' (ev_type c) \<or> matchLiteral ''RETURN'' (ev_type c) then
          (case stack of
             [] \<Rightarrow> (out @ [resolveCall xf topFrame c], [])
           | topf # rest \<Rightarrow> (out @ [resolveCall xf topf c], rest))
        else (out, c # stack))"

definition parseCallStack :: "Interface \<Rightarrow> BundlerCollectorReturn \<Rightarrow> CallEntry list" where
  "parseCallStack xf tracerResults =
     fst (foldl (parseStep xf) ([], [])
            (filter (\<lambda>x. \<not> prefix ''depth'' (ev_type x))
               (concat (map calls (callsFromEntryPoint tracerResults)))))"

section \<open>parseEntitySlots\<close>

text \<open>\<open>Set.add\<close> on a set kept in insertion order.\<close>

definition setAdd :: "string list \<Rightarrow> string \<Rightarrow> string list" where
  "setAdd xs x = (if x \<in> set xs then xs else xs @ [x])"

text \<open>The body of the inner \<open>forEach\<close>: one preimage \<open>k\<close>, one entity \<open>info\<close>.\<close>

definition addEntitySlot ::
  "(string \<Rightarrow> string) \<Rightarrow> string \<Rightarrow> StakeInfo option \<Rightarrow> (string \<rightharpoonup> string list)
     \<Rightarrow> (string \<rightharpoonup> string list) result" where
  "addEntitySlot kec k info entitySlots =
     (case info of
        None \<Rightarrow> Inr entitySlots
      | Some i \<Rightarrow>
          (let a = toLowerCase (addr i) in
           case toBytes32 a of
             None \<Rightarrow> Inl ArgumentError
           | Some addrPadded \<Rightarrow>
               (let currentEntitySlots =
                      (case entitySlots a of None \<Rightarrow> [] | Some s \<Rightarrow> s)
                in Inr (entitySlots(a \<mapsto>
                     (if prefix addrPadded k then setAdd currentEntitySlots (kec k)
                      else currentEntitySlots))))))"

definition parseEntitySlots ::
  "(string \<Rightarrow> string) \<Rightarrow> StakeInfo option list \<Rightarrow> string list
     \<Rightarrow> (string \<rightharpoonup> string list) result" where
  "parseEntitySlots kec stakeInfoEntities keccak_list =
     foldE (\<lambda>k. foldE (addEntitySlot kec k) stakeInfoEntities) keccak_list Map.empty"

section \<open>parseScannerResult\<close>

record EntryPoint =
  address :: string

definition titleName :: "entityTitle \<Rightarrow> string" where
  "titleName t = (case t of factory \<Rightarrow> ''factory'' | account \<Rightarrow> ''account''
                  | paymaster \<Rightarrow> ''paymaster'')"

definition bannedOpCodes :: "string list" where
  "bannedOpCodes = [''GASPRICE'', ''GASLIMIT'', ''DIFFICULTY'', ''TIMESTAMP'', ''BASEFEE'',
     ''BLOCKHASH'', ''NUMBER'', ''SELFBALANCE'', ''BALANCE'', ''ORIGIN'', ''GAS'', ''CREATE'',
     ''COINBASE'', ''SELFDESTRUCT'', ''RANDOM'', ''PREVRANDAO'']"

subsection \<open>The two checks of the whole call list (lines 186 to 198)\<close>

definition illegalEntryPointCall :: "string \<Rightarrow> CallEntry \<Rightarrow> bool" where
  "illegalEntryPointCall entryPointAddress call =
     (ce_to call = Some entryPointAddress \<and> ce_from call \<noteq> Some entryPointAddress \<and>
      (ce_method call \<noteq> Some ''0x'' \<and> ce_method call \<noteq> Some ''depositTo''))"

definition checkEntryPointCalls :: "string \<Rightarrow> CallEntry list \<Rightarrow> unit result" where
  "checkEntryPointCalls entryPointAddress callStack =
     (let callInfoEntryPoint = find (illegalEntryPointCall entryPointAddress) callStack
      in requireCond (callInfoEntryPoint = None)
           (IllegalCallIntoEntryPoint
              (case callInfoEntryPoint of None \<Rightarrow> None | Some c \<Rightarrow> ce_method c))
           None)"

text \<open>
  The predicate of the second \<open>find\<close>: \<open>call.to !== entryPointAddress &&
  BigNumber.from(call.value ?? 0) !== BigNumber.from(0)\<close>. Both operands of the second
  \<open>!==\<close> are objects made by \<open>BigNumber.from\<close>, the right one after the left one.
\<close>

definition valueCallPredicate :: "string \<Rightarrow> CallEntry \<Rightarrow> bool" where
  "valueCallPredicate entryPointAddress call =
     (ce_to call \<noteq> Some entryPointAddress \<and>
      (case newBigNumber 0 (case ce_value call of None \<Rightarrow> 0 | Some v \<Rightarrow> v) of
         (a, n) \<Rightarrow> (case newBigNumber n 0 of (b, _) \<Rightarrow> strictNotEqual a b)))"

definition checkCallValues :: "string \<Rightarrow> CallEntry list \<Rightarrow> unit result" where
  "checkCallValues entryPointAddress callStack =
     requireCond (find (valueCallPredicate entryPointAddress) callStack \<noteq> None)
       MayNotCallWithValue None"

subsection \<open>The helpers nested in the loop over the entities\<close>

definition nameAddr :: "(entityTitle \<times> StakeInfo option) list \<Rightarrow> string \<Rightarrow> string" where
  "nameAddr stakeInfoEntities adr =
     (case find (\<lambda>(title, info). case info of None \<Rightarrow> False
                   | Some i \<Rightarrow> toLowerCase (addr i) = toLowerCase adr) stakeInfoEntities of
        None \<Rightarrow> adr
      | Some (title, _) \<Rightarrow> titleName title)"

text \<open>The \<open>for\<close> loop of \<open>associatedWith\<close> over the slots \<open>k\<close> of the address.\<close>

fun withinStructure :: "int \<Rightarrow> string list \<Rightarrow> bool result" where
  "withinStructure slotN [] = Inr False"
| "withinStructure slotN (k1 # ks) =
     (case BigNumber_from k1 of
        None \<Rightarrow> Inl ArgumentError
      | Some kn \<Rightarrow>
          if slotN \<ge> kn \<and> slotN < kn + 128 then Inr True else withinStructure slotN ks)"

definition associatedWith ::
  "string \<Rightarrow> string \<Rightarrow> (string \<rightharpoonup> string list) \<Rightarrow> bool result" where
  "associatedWith slot adr entitySlots =
     (case hexZeroPad adr 32 of
        None \<Rightarrow> Inl ArgumentError
      | Some padded \<Rightarrow>
          (let addrPadded = toLowerCase padded in
           if slot = addrPadded then Inr True
           else case entitySlots adr of
                  None \<Rightarrow> Inr False
                | Some k \<Rightarrow>
                    (case BigNumber_from slot of
                       None \<Rightarrow> Inl ArgumentError
                     | Some slotN \<Rightarrow> withinStructure slotN k)))"

text \<open>
  \<open>requireCondAndStake\<close>; \<open>entityTitle\<close>, \<open>access\<close> and \<open>entStakes\<close> are the variables it
  captures. Its parameter \<open>entStake\<close> is not read by the source.
\<close>

definition requireCondAndStake ::
  "entityTitle \<Rightarrow> (string \<times> AccessInfo) list \<Rightarrow> StakeInfo option
     \<Rightarrow> bool \<Rightarrow> StakeInfo option \<Rightarrow> message \<Rightarrow> unit result" where
  "requireCondAndStake entityTitle acc entStakes cond entStake failureMessage =
     (if \<not> cond then Inr ()
      else case entStakes of
             None \<Rightarrow> Inl (Error_not_in_userOp entityTitle acc)
           | Some st \<Rightarrow>
               requireCond (1 < stake st \<and> 1 < unstakeDelaySec st) failureMessage
                 (Some (entityTitle, Some (addr st))))"

definition entityAddrOf :: "StakeInfo option \<Rightarrow> string" where
  "entityAddrOf entStakes = (case entStakes of None \<Rightarrow> [] | Some st \<Rightarrow> addr st)"

text \<open>
  The body of the \<open>forEach\<close> over the slots written and read at \<open>adr\<close> (lines 285 to 305);
  the state is the variable \<open>requireStakeSlot\<close>.
\<close>

definition scanSlot ::
  "entityTitle \<Rightarrow> StakeInfo option \<Rightarrow> (entityTitle \<times> StakeInfo option) list \<Rightarrow> string
     \<Rightarrow> UserOperation \<Rightarrow> (string \<rightharpoonup> string list) \<Rightarrow> string \<Rightarrow> (string \<times> nat) list
     \<Rightarrow> string \<Rightarrow> string option \<Rightarrow> string option result" where
  "scanSlot entityTitle entStakes stakeInfoEntities sender_lc userOp entitySlots adr wr slot
     requireStakeSlot =
     bindE (associatedWith slot sender_lc entitySlots) (\<lambda>bySender.
       if bySender then
         Inr (if length (initCode userOp) > 2 then Some slot else requireStakeSlot)
       else
         bindE (associatedWith slot (entityAddrOf entStakes) entitySlots) (\<lambda>byEntity.
           if byEntity then Inr (Some slot)
           else if adr = entityAddrOf entStakes then Inr (Some slot)
           else
             (let readWrite = (if adr \<in> set (map fst wr) then ''write to'' else ''read from'')
              in thenE (requireCond False
                          (ForbiddenAccess entityTitle readWrite
                             (nameAddr stakeInfoEntities adr) slot)
                          (Some (entityTitle, map_option addr entStakes)))
                   (Inr requireStakeSlot))))"

text \<open>The body of the \<open>forEach\<close> over the entries of \<open>access\<close> (lines 235 to 318).\<close>

definition checkAccess ::
  "entityTitle \<Rightarrow> StakeInfo option \<Rightarrow> (entityTitle \<times> StakeInfo option) list \<Rightarrow> string
     \<Rightarrow> string \<Rightarrow> UserOperation \<Rightarrow> (string \<rightharpoonup> string list) \<Rightarrow> (string \<times> AccessInfo) list
     \<Rightarrow> string \<times> AccessInfo \<Rightarrow> unit result" where
  "checkAccess entityTitle entStakes stakeInfoEntities sender_lc entryPointAddress userOp
     entitySlots acc entry =
     (case entry of (adr, info) \<Rightarrow>
        if adr = sender_lc then Inr ()
        else if adr = entryPointAddress then Inr ()
        else
          bindE (foldE (scanSlot entityTitle entStakes stakeInfoEntities sender_lc userOp
                          entitySlots adr (writes info))
                   (map fst (writes info) @ map fst (reads info)) None)
            (\<lambda>requireStakeSlot.
               requireCondAndStake entityTitle acc entStakes (requireStakeSlot \<noteq> None)
                 entStakes
                 (UnstakedAccessed entityTitle (nameAddr stakeInfoEntities adr)
                    requireStakeSlot)))"

text \<open>The CREATE2 rule (lines 229 to 233).\<close>

definition checkCreate2 :: "entityTitle \<Rightarrow> (string \<times> nat) list \<Rightarrow> unit result" where
  "checkCreate2 entityTitle ops =
     (if entityTitle = factory then
        requireCond ((case map_of ops ''CREATE2'' of None \<Rightarrow> 0 | Some n \<Rightarrow> n) \<le> 1)
          (TooManyCREATE2 entityTitle) None
      else
        requireCond (map_of ops ''CREATE2'' = None)
          (UsesBannedOpcode entityTitle ''CREATE2'') None)"

text \<open>The paymaster's context rule (lines 320 to 325).\<close>

definition returnedContext :: "CallEntry option \<Rightarrow> string option" where
  "returnedContext validatePaymasterUserOp =
     (case validatePaymasterUserOp of
        None \<Rightarrow> None
      | Some c \<Rightarrow>
          (case ce_return c of
             Some (Decoded r) \<Rightarrow> map_of r ''context''
           | _ \<Rightarrow> None))"

definition checkPaymasterContext ::
  "entityTitle \<Rightarrow> (string \<times> AccessInfo) list \<Rightarrow> StakeInfo option \<Rightarrow> CallEntry list
     \<Rightarrow> unit result" where
  "checkPaymasterContext entityTitle acc entStakes callStack =
     (let validatePaymasterUserOp =
            find (\<lambda>call. ce_method call = Some ''validatePaymasterUserOp'' \<and>
                          ce_to call = Some (entityAddrOf entStakes)) callStack;
          context = returnedContext validatePaymasterUserOp
      in requireCondAndStake entityTitle acc entStakes
           (context \<noteq> None \<and> context \<noteq> Some ''0x'') entStakes UnstakedPaymasterContext)"

text \<open>The rule on contracts that are not deployed (lines 342 and 343).\<close>

definition checkContractSize :: "entityTitle \<Rightarrow> string \<Rightarrow> (string \<times> nat) list \<Rightarrow> unit result" where
  "checkContractSize entityTitle sender_lc sizes =
     requireCond
       (find (\<lambda>adr. adr \<noteq> sender_lc \<and>
                     (case map_of sizes adr of None \<Rightarrow> False | Some n \<Rightarrow> n \<le> 2))
          (map fst sizes) = None)
       (AccessesUndeployed entityTitle sizes) None"

text \<open>The body of the \<open>forEach\<close> over the three entities (lines 211 to 344).\<close>

definition checkEntity ::
  "Deps \<Rightarrow> UserOperation \<Rightarrow> BundlerCollectorReturn \<Rightarrow> (entityTitle \<times> StakeInfo option) list
     \<Rightarrow> string \<Rightarrow> string \<Rightarrow> (string \<rightharpoonup> string list) \<Rightarrow> CallEntry list
     \<Rightarrow> entityTitle \<times> StakeInfo option \<Rightarrow> unit result" where
  "checkEntity deps userOp tracerResults stakeInfoEntities entryPointAddress sender_lc
     entitySlots callStack entity =
     (case entity of (entityTitle, entStakes) \<Rightarrow>
        (case find (\<lambda>info. topLevelMethodSig info =
                             callsFromEntryPointMethodSigs deps entityTitle)
                (callsFromEntryPoint tracerResults) of
           None \<Rightarrow> if entityTitle = account then Inl Error_missing_trace else Inr ()
         | Some currentNumLevel \<Rightarrow>
             thenE (requireCond
                      (\<not> (case oog currentNumLevel of None \<Rightarrow> False | Some b \<Rightarrow> b))
                      (RevertsOnOog entityTitle) None)
            (thenE (forEachE
                      (\<lambda>opcode. requireCond (opcode \<notin> set bannedOpCodes)
                                   (UsesBannedOpcode entityTitle opcode) None)
                      (map fst (opcodes currentNumLevel)))
            (thenE (checkCreate2 entityTitle (opcodes currentNumLevel))
            (thenE (forEachE
                      (checkAccess entityTitle entStakes stakeInfoEntities sender_lc
                         entryPointAddress userOp entitySlots (access currentNumLevel))
                      (access currentNumLevel))
            (thenE (if entityTitle = paymaster
                    then checkPaymasterContext entityTitle (access currentNumLevel)
                           entStakes callStack
                    else Inr ())
                   (checkContractSize entityTitle sender_lc
                      (contractSize currentNumLevel))))))))"

subsection \<open>The returned value (lines 346 to 354)\<close>

type_synonym StorageMap = "(string \<times> (string \<times> string) list) list"

text \<open>
  \<open>storageMap[addr] = storageMap[addr] ?? level.access[addr].reads\<close> for one key \<open>addr\<close> of
  \<open>level.access\<close>; a key of the object always has its entry.
\<close>

definition storeReads :: "TopLevelCallInfo \<Rightarrow> StorageMap \<Rightarrow> string \<Rightarrow> StorageMap" where
  "storeReads level storageMap adr =
     (case map_of storageMap adr of
        Some _ \<Rightarrow> storageMap
      | None \<Rightarrow>
          (case map_of (access level) adr of
             None \<Rightarrow> storageMap
           | Some info \<Rightarrow> storageMap @ [(adr, reads info)]))"

definition buildStorageMap :: "TopLevelCallInfo list \<Rightarrow> StorageMap" where
  "buildStorageMap levels =
     foldl (\<lambda>storageMap level. foldl (storeReads level) storageMap (map fst (access level)))
       [] levels"

definition parseScannerResult ::
  "Deps \<Rightarrow> UserOperation \<Rightarrow> BundlerCollectorReturn \<Rightarrow> ValidationResult \<Rightarrow> EntryPoint
     \<Rightarrow> (string list \<times> StorageMap) result" where
  "parseScannerResult deps userOp tracerResults validationResult entryPoint =
     (let entryPointAddress = toLowerCase (address entryPoint) in
      if length (callsFromEntryPoint tracerResults) < 1 then Inl Error_no_calls
      else
        (let callStack = parseCallStack (xfaces deps) tracerResults in
         thenE (checkEntryPointCalls entryPointAddress callStack)
        (thenE (checkCallValues entryPointAddress callStack)
        (let sender_lc = toLowerCase (sender userOp);
             stakeInfoEntities =
               [(factory, factoryInfo validationResult),
                (account, senderInfo validationResult),
                (paymaster, paymasterInfo validationResult)]
         in bindE (parseEntitySlots (keccak256 deps) (map snd stakeInfoEntities)
                     (keccak tracerResults))
              (\<lambda>entitySlots.
                 thenE (forEachE
                          (checkEntity deps userOp tracerResults stakeInfoEntities
                             entryPointAddress sender_lc entitySlots callStack)
                          stakeInfoEntities)
                   (let addresses = concat (map (\<lambda>level. map fst (contractSize level))
                                              (callsFromEntryPoint tracerResults));
                        storageMap = buildStorageMap (callsFromEntryPoint tracerResults)
                    in Inr (addresses, storageMap)))))))"

section \<open>Example inputs\<close>

text \<open>
  The preimages that a token hashes for \<open>balanceOf(a)\<close>, with the mapping at slot 0: the
  address \<open>a\<close> padded to 32 bytes, then the slot index. The slots are their Keccak-256
  hashes.
\<close>

definition senderBalancePreimage :: string where
  "senderBalancePreimage = ''0x''
     @ ''0000000000000000000000001111111111111111111111111111111111111111''
     @ ''0000000000000000000000000000000000000000000000000000000000000000''"

definition senderBalanceSlot :: string where
  "senderBalanceSlot = ''0xf043c50fe795c69f30b8ff78b84032dc53a9d87ca283ae10a1dacfbb648e83ef''"

definition paymasterBalancePreimage :: string where
  "paymasterBalancePreimage = ''0x''
     @ ''000000000000000000000000bbbbbbbbbbbbbbbbbbbbbbbbbbbbbbbbbbbbbbbb''
     @ ''0000000000000000000000000000000000000000000000000000000000000000''"

definition paymasterBalanceSlot :: string where
  "paymasterBalanceSlot = ''0xaedf8090423f7c23f181308bda87a46b7a0caa99e0bf89e87bc6ce10666b4a03''"

text \<open>\<open>keccak256\<close> on the preimages of the examples.\<close>

definition exampleKeccak256 :: "string \<Rightarrow> string" where
  "exampleKeccak256 k =
     (if k = senderBalancePreimage then senderBalanceSlot
      else if k = paymasterBalancePreimage then paymasterBalanceSlot
      else [])"

definition exampleInterface :: Interface where
  "exampleInterface =
     \<lparr>getFunction = (\<lambda>m. if m = ''validateUserOp'' then Some ''validateUserOp'' else None),
      parseError = (\<lambda>_. None),
      decodeFunctionResult = (\<lambda>_ _. None)\<rparr>"

definition exampleDeps :: Deps where
  "exampleDeps =
     \<lparr>xfaces = exampleInterface,
      callsFromEntryPointMethodSigs =
        (\<lambda>t. case t of factory \<Rightarrow> ''0x570e1a36'' | account \<Rightarrow> ''0x3a871cdd''
              | paymaster \<Rightarrow> ''0xf465c77e''),
      keccak256 = exampleKeccak256\<rparr>"

definition exampleEntryPoint :: EntryPoint where
  "exampleEntryPoint = \<lparr>address = ''0x5FF137D4b0FDCD49DcA30c7CF57E578a026d2789''\<rparr>"

definition senderAddr :: string where
  "senderAddr = ''0x1111111111111111111111111111111111111111''"

definition tokenAddr :: string where
  "tokenAddr = ''0xaaaaaaaaaaaaaaaaaaaaaaaaaaaaaaaaaaaaaaaa''"

definition factoryAddr :: string where
  "factoryAddr = ''0xffffffffffffffffffffffffffffffffffffffff''"

text \<open>The \<open>initCode\<close> of a first operation: the factory's address, then its call data.\<close>

definition deployInitCode :: string where
  "deployInitCode = ''0xffffffffffffffffffffffffffffffffffffffff5fbfb9cf''"

definition returnEvent :: CallEvent where
  "returnEvent = \<lparr>ev_type = ''RETURN'', ev_to = None, ev_from = None, ev_method = [],
     ev_value = None, ev_data = ''0x''\<rparr>"

definition unstaked :: "string \<Rightarrow> StakeInfo" where
  "unstaked a = \<lparr>addr = a, stake = 0, unstakeDelaySec = 0\<rparr>"

definition exampleValidation :: ValidationResult where
  "exampleValidation = \<lparr>factoryInfo = Some (unstaked factoryAddr),
     senderInfo = Some (unstaked senderAddr), paymasterInfo = None\<rparr>"

definition emptyLevel :: "string \<Rightarrow> TopLevelCallInfo" where
  "emptyLevel sig = \<lparr>topLevelMethodSig = sig, opcodes = [], access = [], contractSize = [],
     oog = None, calls = []\<rparr>"

text \<open>A factory level and an account level that both looked at the code of one contract.\<close>

definition sharedContractTrace :: BundlerCollectorReturn where
  "sharedContractTrace =
     \<lparr>callsFromEntryPoint =
        [(emptyLevel ''0x570e1a36'')\<lparr>contractSize := [(tokenAddr, 100)]\<rparr>,
         (emptyLevel ''0x3a871cdd'')\<lparr>contractSize := [(tokenAddr, 100)],
            calls := [returnEvent]\<rparr>],
      keccak = []\<rparr>"

definition callEvent :: "string \<Rightarrow> string \<Rightarrow> string \<Rightarrow> int \<Rightarrow> CallEvent" where
  "callEvent from_a to_a m v = \<lparr>ev_type = ''CALL'', ev_to = Some to_a, ev_from = Some from_a,
     ev_method = m, ev_value = Some v, ev_data = []\<rparr>"

definition revertEvent :: CallEvent where
  "revertEvent = \<lparr>ev_type = ''REVERT'', ev_to = None, ev_from = None, ev_method = [],
     ev_value = None, ev_data = ''0x''\<rparr>"

definition valueCallTrace :: BundlerCollectorReturn where
  "valueCallTrace =
     \<lparr>callsFromEntryPoint =
        [(emptyLevel ''0x3a871cdd'')\<lparr>calls :=
            [callEvent senderAddr tokenAddr ''0xa9059cbb'' 5, revertEvent, returnEvent]\<rparr>],
      keccak = []\<rparr>"

definition noCallTrace :: BundlerCollectorReturn where
  "noCallTrace = \<lparr>callsFromEntryPoint = [emptyLevel ''0x3a871cdd''], keccak = []\<rparr>"

definition entryPointLower :: string where
  "entryPointLower = ''0x5ff137d4b0fdcd49dca30c7cf57e578a026d2789''"

definition entryPointCallTrace :: BundlerCollectorReturn where
  "entryPointCallTrace =
     \<lparr>callsFromEntryPoint =
        [(emptyLevel ''0x3a871cdd'')\<lparr>calls :=
            [callEvent senderAddr entryPointLower ''0x70a08231'' 0, returnEvent, returnEvent]\<rparr>],
      keccak = []\<rparr>"

definition depositTrace :: BundlerCollectorReturn where
  "depositTrace =
     \<lparr>callsFromEntryPoint =
        [(emptyLevel ''0x3a871cdd'')\<lparr>calls :=
            [callEvent senderAddr entryPointLower ''0x'' 7, returnEvent, returnEvent]\<rparr>],
      keccak = []\<rparr>"

definition slotZero :: string where
  "slotZero = ''0x0000000000000000000000000000000000000000000000000000000000000000''"

text \<open>
  A factory level and an account level that both read slot 0 of the sender's own storage
  and saw different values.
\<close>

definition twoReadsTrace :: BundlerCollectorReturn where
  "twoReadsTrace =
     \<lparr>callsFromEntryPoint =
        [(emptyLevel ''0x570e1a36'')\<lparr>access :=
            [(senderAddr, \<lparr>reads = [(slotZero, ''0x01'')], writes = []\<rparr>)]\<rparr>,
         (emptyLevel ''0x3a871cdd'')\<lparr>access :=
            [(senderAddr, \<lparr>reads = [(slotZero, ''0x02'')], writes = []\<rparr>)],
            calls := [returnEvent]\<rparr>],
      keccak = []\<rparr>"

definition paymasterAddr :: string where
  "paymasterAddr = ''0xbbbbbbbbbbbbbbbbbbbbbbbbbbbbbbbbbbbbbbbb''"

text \<open>
  The ABI encoding of the pair (context, validationData) that \<open>validatePaymasterUserOp\<close>
  returns, with the context \<open>0xbeef\<close> and with the empty context.
\<close>

definition contextReturnData :: string where
  "contextReturnData = ''0x''
     @ ''0000000000000000000000000000000000000000000000000000000000000040''
     @ ''0000000000000000000000000000000000000000000000000000000000000000''
     @ ''0000000000000000000000000000000000000000000000000000000000000002''
     @ ''beef000000000000000000000000000000000000000000000000000000000000''"

definition emptyContextReturnData :: string where
  "emptyContextReturnData = ''0x''
     @ ''0000000000000000000000000000000000000000000000000000000000000040''
     @ ''0000000000000000000000000000000000000000000000000000000000000000''
     @ ''0000000000000000000000000000000000000000000000000000000000000000''"

text \<open>A registry that knows the two validation functions and decodes these two returns.\<close>

definition paymasterInterface :: Interface where
  "paymasterInterface =
     \<lparr>getFunction =
        (\<lambda>m. if m = ''0xf465c77e'' then Some ''validatePaymasterUserOp''
              else if m = ''0x3a871cdd'' \<or> m = ''validateUserOp'' then Some ''validateUserOp''
              else None),
      parseError = (\<lambda>_. None),
      decodeFunctionResult =
        (\<lambda>name data.
           if name = ''validatePaymasterUserOp'' \<and> data = contextReturnData
           then Some [(''context'', ''0xbeef''), (''validationData'', ''0x00'')]
           else if name = ''validatePaymasterUserOp'' \<and> data = emptyContextReturnData
           then Some [(''context'', ''0x''), (''validationData'', ''0x00'')]
           else None)\<rparr>"

definition paymasterDeps :: Deps where
  "paymasterDeps = exampleDeps\<lparr>xfaces := paymasterInterface\<rparr>"

text \<open>An account level and a paymaster level whose validation call returns \<open>data\<close>.\<close>

definition paymasterTrace :: "string \<Rightarrow> BundlerCollectorReturn" where
  "paymasterTrace data =
     \<lparr>callsFromEntryPoint =
        [(emptyLevel ''0x3a871cdd'')\<lparr>calls :=
            [callEvent entryPointLower senderAddr ''0x3a871cdd'' 0, returnEvent]\<rparr>,
         (emptyLevel ''0xf465c77e'')\<lparr>calls :=
            [callEvent entryPointLower paymasterAddr ''0xf465c77e'' 0,
             returnEvent\<lparr>ev_data := data\<rparr>]\<rparr>],
      keccak = []\<rparr>"

definition paymasterValidation :: "int \<Rightarrow> int \<Rightarrow> ValidationResult" where
  "paymasterValidation s d =
     \<lparr>factoryInfo = None, senderInfo = Some (unstaked senderAddr),
      paymasterInfo = Some \<lparr>addr = paymasterAddr, stake = s, unstakeDelaySec = d\<rparr>\<rparr>"

text \<open>A factory level, and an account level, that ran CREATE2 \<open>n\<close> times.\<close>

definition create2Trace :: "string \<Rightarrow> nat \<Rightarrow> BundlerCollectorReturn" where
  "create2Trace sig n =
     \<lparr>callsFromEntryPoint =
        [(emptyLevel sig)\<lparr>opcodes := [(''PUSH1'', 3), (''CREATE2'', n)],
            calls := [returnEvent]\<rparr>],
      keccak = []\<rparr>"

text \<open>
  The stake records of an operation without factory, with the paymaster's address in
  mixed case.
\<close>

definition exampleEntities :: "StakeInfo option list" where
  "exampleEntities =
     [None, Some (unstaked senderAddr),
      Some (unstaked ''0xBBbbBBbbBBbbBBbbBBbbBBbbBBbbBBbbBBbbBBbb'')]"

text \<open>
  The preimage of an allowance: the spender (the token itself here) padded to 32 bytes,
  then the sender's balance slot.
\<close>

definition allowancePreimage :: string where
  "allowancePreimage = ''0x''
     @ ''000000000000000000000000aaaaaaaaaaaaaaaaaaaaaaaaaaaaaaaaaaaaaaaa''
     @ ''f043c50fe795c69f30b8ff78b84032dc53a9d87ca283ae10a1dacfbb648e83ef''"

definition examplePreimages :: "string list" where
  "examplePreimages = [senderBalancePreimage, paymasterBalancePreimage, allowancePreimage]"

text \<open>
  A paymaster level that reads one slot of the token, after the token hashed the preimage
  of the paymaster's balance; the account level does nothing.
\<close>

definition paymasterReadTrace :: "string \<Rightarrow> BundlerCollectorReturn" where
  "paymasterReadTrace slot =
     \<lparr>callsFromEntryPoint =
        [(emptyLevel ''0x3a871cdd'')\<lparr>calls := [returnEvent]\<rparr>,
         (emptyLevel ''0xf465c77e'')\<lparr>access :=
            [(tokenAddr, \<lparr>reads = [(slot, ''0x00'')], writes = []\<rparr>)]\<rparr>],
      keccak = [paymasterBalancePreimage]\<rparr>"

text \<open>The paymaster's balance slot plus 5, plus 127 and plus 128, and the slot before it.\<close>

definition paymasterSlotPlus5 :: string where
  "paymasterSlotPlus5 = ''0xaedf8090423f7c23f181308bda87a46b7a0caa99e0bf89e87bc6ce10666b4a08''"

definition paymasterSlotPlus127 :: string where
  "paymasterSlotPlus127 = ''0xaedf8090423f7c23f181308bda87a46b7a0caa99e0bf89e87bc6ce10666b4a82''"

definition paymasterSlotPlus128 :: string where
  "paymasterSlotPlus128 = ''0xaedf8090423f7c23f181308bda87a46b7a0caa99e0bf89e87bc6ce10666b4a83''"

definition paymasterSlotMinus1 :: string where
  "paymasterSlotMinus1 = ''0xaedf8090423f7c23f181308bda87a46b7a0caa99e0bf89e87bc6ce10666b4a02''"

definition paymasterSlots :: "string \<rightharpoonup> string list" where
  "paymasterSlots = [senderAddr \<mapsto> [], paymasterAddr \<mapsto> [paymasterBalanceSlot]]"

text \<open>
  An account level that reads the sender's balance at the token, after the token hashed its
  preimage.
\<close>

definition senderBalanceTrace :: BundlerCollectorReturn where
  "senderBalanceTrace =
     \<lparr>callsFromEntryPoint =
        [(emptyLevel ''0x3a871cdd'')\<lparr>access :=
            [(tokenAddr, \<lparr>reads = [(senderBalanceSlot, ''0x00'')], writes = []\<rparr>)],
            calls := [returnEvent]\<rparr>],
      keccak = [senderBalancePreimage]\<rparr>"

definition senderSlots :: "string \<rightharpoonup> string list" where
  "senderSlots = [senderAddr \<mapsto> [senderBalanceSlot]]"

text \<open>
  A first operation whose paymaster level reads, at the token, the sender's balance slot
  and then the paymaster's own balance slot, after the token hashed both preimages.
\<close>

definition twoBalancesTrace :: BundlerCollectorReturn where
  "twoBalancesTrace =
     \<lparr>callsFromEntryPoint =
        [emptyLevel ''0x570e1a36'',
         (emptyLevel ''0x3a871cdd'')\<lparr>calls := [returnEvent]\<rparr>,
         (emptyLevel ''0xf465c77e'')\<lparr>access :=
            [(tokenAddr, \<lparr>reads = [(senderBalanceSlot, ''0x00''),
                                     (paymasterBalanceSlot, ''0x00'')], writes = []\<rparr>)]\<rparr>],
      keccak = [senderBalancePreimage, paymasterBalancePreimage]\<rparr>"

text \<open>The stake records of a first operation with a paymaster.\<close>

definition fullValidation :: "int \<Rightarrow> int \<Rightarrow> ValidationResult" where
  "fullValidation s d =
     \<lparr>factoryInfo = Some (unstaked factoryAddr), senderInfo = Some (unstaked senderAddr),
      paymasterInfo = Some \<lparr>addr = paymasterAddr, stake = s, unstakeDelaySec = d\<rparr>\<rparr>"

definition bothSlots :: "string \<rightharpoonup> string list" where
  "bothSlots = [senderAddr \<mapsto> [senderBalanceSlot], paymasterAddr \<mapsto> [paymasterBalanceSlot]]"

text \<open>The paymaster's address as EIP-55 writes it, in mixed case.\<close>

definition paymasterChecksumAddr :: string where
  "paymasterChecksumAddr = ''0xbBbBBBBbbBBBbbbBbbBbbbbBBbBbbbbBbBbbBBbB''"

text \<open>The stake records when the paymaster's address is given in mixed case.\<close>

definition checksumPaymasterValidation :: "int \<Rightarrow> int \<Rightarrow> ValidationResult" where
  "checksumPaymasterValidation s d =
     \<lparr>factoryInfo = None, senderInfo = Some (unstaked senderAddr),
      paymasterInfo = Some \<lparr>addr = paymasterChecksumAddr, stake = s, unstakeDelaySec = d\<rparr>\<rparr>"

text \<open>
  A paymaster that, inside its validation, calls its own \<open>validatePaymasterUserOp\<close>: the
  inner call returns the empty context, the call from the entry point returns \<open>0xbeef\<close>.
\<close>

definition selfCallPaymasterTrace :: BundlerCollectorReturn where
  "selfCallPaymasterTrace =
     \<lparr>callsFromEntryPoint =
        [(emptyLevel ''0x3a871cdd'')\<lparr>calls :=
            [callEvent entryPointLower senderAddr ''0x3a871cdd'' 0, returnEvent]\<rparr>,
         (emptyLevel ''0xf465c77e'')\<lparr>calls :=
            [callEvent entryPointLower paymasterAddr ''0xf465c77e'' 0,
             callEvent paymasterAddr paymasterAddr ''0xf465c77e'' 0,
             returnEvent\<lparr>ev_data := emptyContextReturnData\<rparr>,
             returnEvent\<lparr>ev_data := contextReturnData\<rparr>]\<rparr>],
      keccak = []\<rparr>"

section \<open>Auxiliary facts\<close>

lemma find_SomeD: "find P xs = Some x \<Longrightarrow> x \<in> set xs \<and> P x"
  by (induction xs) (auto split: if_splits)

lemma find_is_Some: "x \<in> set xs \<Longrightarrow> P x \<Longrightarrow> \<exists>y. find P xs = Some y"
  by (cases "find P xs") (auto simp: find_None_iff)

lemma forEachE_requireCond:
  "forEachE (\<lambda>x. requireCond (P x) (m x) d) xs =
     (case find (\<lambda>x. \<not> P x) xs of None \<Rightarrow> Inr () | Some x \<Rightarrow> Inl (RpcError (m x) d))"
  by (induction xs) (auto simp: requireCond_def)

lemma parseScannerResult_success:
  assumes "parseScannerResult deps userOp tracerResults validationResult entryPoint = Inr r"
  shows "r = (concat (map (\<lambda>level. map fst (contractSize level))
                    (callsFromEntryPoint tracerResults)),
              buildStorageMap (callsFromEntryPoint tracerResults))"
  using assms
  by (auto simp: parseScannerResult_def Let_def thenE_def bindE_def
           split: if_splits sum.splits)

lemma count_list_distinct:
  "distinct ys \<Longrightarrow> count_list ys a = (if a \<in> set ys then 1 else 0)"
  by (induction ys) auto

lemma count_list_concat_keys:
  assumes "\<forall>x \<in> set xs. distinct (f x)"
  shows "count_list (concat (map f xs)) a = length (filter (\<lambda>x. a \<in> set (f x)) xs)"
  using assms
proof (induction xs)
  case Nil
  then show ?case by simp
next
  case (Cons x xs)
  have "count_list (f x) a = (if a \<in> set (f x) then 1 else 0)"
    using Cons.prems by (simp add: count_list_distinct)
  with Cons show ?case by simp
qed

lemma checkEntryPointCalls_find:
  "checkEntryPointCalls e cs =
     (case find (illegalEntryPointCall e) cs of
        None \<Rightarrow> Inr ()
      | Some c \<Rightarrow> Inl (RpcError (IllegalCallIntoEntryPoint (ce_method c)) None))"
  by (simp add: checkEntryPointCalls_def requireCond_def Let_def split: option.splits)

lemma checkCallValues_iff:
  "(checkCallValues epa callStack = Inr ()) = (\<exists>call \<in> set callStack. ce_to call \<noteq> Some epa)"
  by (auto simp: checkCallValues_def requireCond_def valueCallPredicate_def newBigNumber_def
        strictNotEqual_def find_None_iff)

lemma thenE_Inr: "(thenE m k = Inr x) = (m = Inr () \<and> k = Inr x)"
  by (cases m) (auto simp: thenE_def)

lemma checkEntity_level:
  assumes "find (\<lambda>info. topLevelMethodSig info = callsFromEntryPointMethodSigs deps t)
             (callsFromEntryPoint tracerResults) = Some lvl"
  shows "checkEntity deps userOp tracerResults sie epa snd_lc es cs (t, entStakes) =
     thenE (requireCond (\<not> (case oog lvl of None \<Rightarrow> False | Some b \<Rightarrow> b))
              (RevertsOnOog t) None)
    (thenE (forEachE (\<lambda>opcode. requireCond (opcode \<notin> set bannedOpCodes)
                                  (UsesBannedOpcode t opcode) None)
              (map fst (opcodes lvl)))
    (thenE (checkCreate2 t (opcodes lvl))
    (thenE (forEachE (checkAccess t entStakes sie snd_lc epa userOp es (access lvl))
              (access lvl))
    (thenE (if t = paymaster then checkPaymasterContext t (access lvl) entStakes cs
            else Inr ())
           (checkContractSize t snd_lc (contractSize lvl))))))"
  using assms by (simp add: checkEntity_def)

section \<open>The value check of the call list\<close>

text \<open>
  C1. A resolved call that carries a non-zero value is meant to be refused with "May not may
  CALL with value". The check as written passes exactly when some call does not target the
  entry point (\<open>checkCallValues_iff\<close>): the account level below makes a reverted call
  that transfers 5 to a token, the call list records that value, and the run succeeds; a
  trace with no closed call at all, hence with no value transferred, is refused with that
  message.
\<close>

theorem value_call_not_rejected:
  "map (\<lambda>call. (ce_to call, ce_value call)) (parseCallStack exampleInterface valueCallTrace)
     = [(Some tokenAddr, Some 5), (None, None)]
   \<and> parseScannerResult exampleDeps \<lparr>sender = senderAddr, initCode = ''0x''\<rparr>
        valueCallTrace exampleValidation exampleEntryPoint = Inr ([], [])
   \<and> parseCallStack exampleInterface noCallTrace = []
   \<and> parseScannerResult exampleDeps \<lparr>sender = senderAddr, initCode = ''0x''\<rparr>
        noCallTrace exampleValidation exampleEntryPoint
      = Inl (RpcError MayNotCallWithValue None)"
  by code_simp

section \<open>Slots associated with the sender\<close>

lemma scanSlot_sender:
  assumes "associatedWith slot sender_lc es = Inr True"
  shows "scanSlot t entStakes sie sender_lc userOp es adr wr slot rs =
         Inr (if length (initCode userOp) > 2 then Some slot else rs)"
  using assms by (simp add: scanSlot_def bindE_def)

lemma foldE_scanSlot_sender:
  assumes "\<forall>slot \<in> set slots. associatedWith slot sender_lc es = Inr True"
  shows "foldE (scanSlot t entStakes sie sender_lc userOp es adr wr) slots rs =
         Inr (if length (initCode userOp) > 2 \<and> slots \<noteq> [] then Some (last slots) else rs)"
  using assms
proof (induction slots arbitrary: rs)
  case Nil
  then show ?case by simp
next
  case (Cons slot slots)
  then show ?case by (simp add: scanSlot_sender)
qed

lemma scanSlot_keeps:
  assumes "scanSlot t entStakes sie sender_lc userOp es adr wr slot rs = Inr r"
    and "rs \<noteq> None"
  shows "r \<noteq> None"
  using assms
  by (auto simp: scanSlot_def bindE_def thenE_def requireCond_def
           split: sum.splits if_splits)

lemma foldE_scanSlot_keeps:
  assumes "foldE (scanSlot t entStakes sie sender_lc userOp es adr wr) slots rs = Inr r"
    and "rs \<noteq> None"
  shows "r \<noteq> None"
  using assms
proof (induction slots arbitrary: rs)
  case Nil
  then show ?case by simp
next
  case (Cons s slots)
  from Cons.prems(1) obtain rs1 where
    step: "scanSlot t entStakes sie sender_lc userOp es adr wr s rs = Inr rs1" and
    rest: "foldE (scanSlot t entStakes sie sender_lc userOp es adr wr) slots rs1 = Inr r"
    by (auto split: sum.splits)
  from scanSlot_keeps[OF step Cons.prems(2)] have "rs1 \<noteq> None" .
  from Cons.IH[OF rest this] show ?case .
qed

lemma foldE_scanSlot_records:
  assumes "foldE (scanSlot t entStakes sie sender_lc userOp es adr wr) slots rs = Inr r"
    and "slot \<in> set slots"
    and "associatedWith slot sender_lc es = Inr True"
    and "length (initCode userOp) > 2"
  shows "r \<noteq> None"
  using assms(1,2)
proof (induction slots arbitrary: rs)
  case Nil
  then show ?case by simp
next
  case (Cons s slots)
  from Cons.prems(1) obtain rs1 where
    step: "scanSlot t entStakes sie sender_lc userOp es adr wr s rs = Inr rs1" and
    rest: "foldE (scanSlot t entStakes sie sender_lc userOp es adr wr) slots rs1 = Inr r"
    by (auto split: sum.splits)
  show ?case
  proof (cases "s = slot")
    case True
    with step assms(3,4) have "rs1 = Some slot"
      by (simp add: scanSlot_sender)
    then have "rs1 \<noteq> None" by simp
    from foldE_scanSlot_keeps[OF rest this] show ?thesis .
  next
    case False
    with Cons.prems(2) have "slot \<in> set slots" by simp
    from Cons.IH[OF rest this] show ?thesis .
  qed
qed

lemma foldE_scanSlot_skip:
  assumes "\<not> length (initCode userOp) > 2"
  shows "foldE (scanSlot t entStakes sie sender_lc userOp es adr wr) slots rs =
         foldE (scanSlot t entStakes sie sender_lc userOp es adr wr)
           (filter (\<lambda>s. associatedWith s sender_lc es \<noteq> Inr True) slots) rs"
proof (induction slots arbitrary: rs)
  case Nil
  then show ?case by simp
next
  case (Cons s slots)
  show ?case
  proof (cases "associatedWith s sender_lc es = Inr True")
    case True
    with assms have "scanSlot t entStakes sie sender_lc userOp es adr wr s rs = Inr rs"
      by (simp add: scanSlot_sender)
    with True Cons.IH show ?thesis by simp
  next
    case False
    with Cons.IH show ?thesis by (simp split: sum.splits)
  qed
qed

lemma checkAccess_requires_stake:
  assumes "adr \<noteq> sender_lc" and "adr \<noteq> epa"
    and "slot \<in> set (map fst (writes info) @ map fst (reads info))"
    and "associatedWith slot sender_lc es = Inr True"
    and "length (initCode userOp) > 2"
    and "checkAccess t entStakes sie sender_lc epa userOp es acc (adr, info) = Inr ()"
  shows "\<exists>st. entStakes = Some st \<and> 1 < stake st \<and> 1 < unstakeDelaySec st"
proof -
  let ?slots = "map fst (writes info) @ map fst (reads info)"
  from assms(1,2,6) obtain r where
    f: "foldE (scanSlot t entStakes sie sender_lc userOp es adr (writes info)) ?slots None
          = Inr r" and
    q: "requireCondAndStake t acc entStakes (r \<noteq> None) entStakes
          (UnstakedAccessed t (nameAddr sie adr) r) = Inr ()"
    by (auto simp: checkAccess_def bindE_def split: sum.splits)
  from foldE_scanSlot_records[OF f assms(3,4,5)] have "r \<noteq> None" .
  with q show ?thesis
    by (cases entStakes)
       (auto simp: requireCondAndStake_def requireCond_def split: if_splits)
qed

text \<open>
  C2, as stated, fails for the account entity: on a first operation (with \<open>initCode\<close>)
  an unstaked account that reads the sender's balance slot at a token is refused with
  "unstaked account accessed ... slot ...".
\<close>

theorem account_sender_slot_counterexample:
  "toLowerCase senderAddr = senderAddr
   \<and> map_sum id (associatedWith senderBalanceSlot senderAddr)
        (parseEntitySlots exampleKeccak256
           [factoryInfo exampleValidation, senderInfo exampleValidation,
            paymasterInfo exampleValidation]
           (keccak senderBalanceTrace))
      = Inr (Inr True)
   \<and> parseScannerResult exampleDeps \<lparr>sender = senderAddr, initCode = deployInitCode\<rparr>
        senderBalanceTrace exampleValidation exampleEntryPoint
      = Inl (RpcError (UnstakedAccessed account tokenAddr (Some senderBalanceSlot))
               (Some (account, Some senderAddr)))"
  by code_simp

text \<open>
  C2, amended. For every entity, the account included, a slot associated with the sender
  that is read or written at an address other than the sender and the entry point records
  no stake requirement when \<open>initCode\<close> is empty (at most the two characters \<open>0x\<close>),
  and is recorded as stake-requiring when \<open>initCode\<close> is present. With \<open>initCode\<close>
  present, the accesses at an address where such a slot is touched, whatever the other
  slots touched there, pass only if the entity has a stake record that is staked. With
  \<open>initCode\<close> empty, the scan of the slots gives what it gives without the slots
  associated with the sender. When all the slots touched at the address are associated
  with the sender, the access passes without any stake if \<open>initCode\<close> is empty, and
  with \<open>initCode\<close> present it passes if and only if the entity is staked.
\<close>

theorem sender_slot_rule:
  "(associatedWith slot sender_lc es = Inr True \<longrightarrow>
      scanSlot t entStakes sie sender_lc userOp es adr wr slot rs =
        Inr (if length (initCode userOp) > 2 then Some slot else rs))
   \<and> (adr \<noteq> sender_lc \<and> adr \<noteq> epa \<and>
      (\<forall>slot \<in> set (map fst (writes info) @ map fst (reads info)).
         associatedWith slot sender_lc es = Inr True) \<and>
      \<not> length (initCode userOp) > 2 \<longrightarrow>
      checkAccess t entStakes sie sender_lc epa userOp es acc (adr, info) = Inr ())
   \<and> (adr \<noteq> sender_lc \<and> adr \<noteq> epa \<and>
      (\<forall>slot \<in> set (map fst (writes info) @ map fst (reads info)).
         associatedWith slot sender_lc es = Inr True) \<and>
      map fst (writes info) @ map fst (reads info) \<noteq> [] \<and>
      length (initCode userOp) > 2 \<longrightarrow>
      (checkAccess t entStakes sie sender_lc epa userOp es acc (adr, info) = Inr ()) =
      (\<exists>st. entStakes = Some st \<and> 1 < stake st \<and> 1 < unstakeDelaySec st))
   \<and> (adr \<noteq> sender_lc \<and> adr \<noteq> epa \<and>
      slot \<in> set (map fst (writes info) @ map fst (reads info)) \<and>
      associatedWith slot sender_lc es = Inr True \<and>
      length (initCode userOp) > 2 \<and>
      checkAccess t entStakes sie sender_lc epa userOp es acc (adr, info) = Inr () \<longrightarrow>
      (\<exists>st. entStakes = Some st \<and> 1 < stake st \<and> 1 < unstakeDelaySec st))
   \<and> (\<not> length (initCode userOp) > 2 \<longrightarrow>
      foldE (scanSlot t entStakes sie sender_lc userOp es adr wr) slots rs =
      foldE (scanSlot t entStakes sie sender_lc userOp es adr wr)
        (filter (\<lambda>s. associatedWith s sender_lc es \<noteq> Inr True) slots) rs)"
proof (intro conjI impI)
  assume "associatedWith slot sender_lc es = Inr True"
  then show "scanSlot t entStakes sie sender_lc userOp es adr wr slot rs =
        Inr (if length (initCode userOp) > 2 then Some slot else rs)"
    by (rule scanSlot_sender)
next
  let ?slots = "map fst (writes info) @ map fst (reads info)"
  assume h: "adr \<noteq> sender_lc \<and> adr \<noteq> epa \<and>
      (\<forall>slot \<in> set ?slots. associatedWith slot sender_lc es = Inr True) \<and>
      \<not> length (initCode userOp) > 2"
  then have "\<forall>slot \<in> set ?slots. associatedWith slot sender_lc es = Inr True"
    by blast
  from foldE_scanSlot_sender[OF this] h
  have "foldE (scanSlot t entStakes sie sender_lc userOp es adr (writes info)) ?slots None
          = Inr None"
    by simp
  with h show "checkAccess t entStakes sie sender_lc epa userOp es acc (adr, info) = Inr ()"
    by (simp add: checkAccess_def bindE_def requireCondAndStake_def)
next
  let ?slots = "map fst (writes info) @ map fst (reads info)"
  assume h: "adr \<noteq> sender_lc \<and> adr \<noteq> epa \<and>
      (\<forall>slot \<in> set ?slots. associatedWith slot sender_lc es = Inr True) \<and>
      ?slots \<noteq> [] \<and> length (initCode userOp) > 2"
  then have "\<forall>slot \<in> set ?slots. associatedWith slot sender_lc es = Inr True"
    by blast
  from foldE_scanSlot_sender[OF this] h
  have "foldE (scanSlot t entStakes sie sender_lc userOp es adr (writes info)) ?slots None
          = Inr (Some (last ?slots))"
    by simp
  with h show "(checkAccess t entStakes sie sender_lc epa userOp es acc (adr, info) = Inr ()) =
      (\<exists>st. entStakes = Some st \<and> 1 < stake st \<and> 1 < unstakeDelaySec st)"
    by (cases entStakes)
       (auto simp: checkAccess_def bindE_def requireCondAndStake_def requireCond_def)
next
  assume "adr \<noteq> sender_lc \<and> adr \<noteq> epa \<and>
      slot \<in> set (map fst (writes info) @ map fst (reads info)) \<and>
      associatedWith slot sender_lc es = Inr True \<and>
      length (initCode userOp) > 2 \<and>
      checkAccess t entStakes sie sender_lc epa userOp es acc (adr, info) = Inr ()"
  then show "\<exists>st. entStakes = Some st \<and> 1 < stake st \<and> 1 < unstakeDelaySec st"
    using checkAccess_requires_stake by blast
next
  assume "\<not> length (initCode userOp) > 2"
  then show "foldE (scanSlot t entStakes sie sender_lc userOp es adr wr) slots rs =
      foldE (scanSlot t entStakes sie sender_lc userOp es adr wr)
        (filter (\<lambda>s. associatedWith s sender_lc es \<noteq> Inr True) slots) rs"
    by (rule foldE_scanSlot_skip)
qed

theorem sender_slot_rule_witness:
  "associatedWith senderBalanceSlot senderAddr senderSlots = Inr True
   \<and> scanSlot account (Some (unstaked senderAddr)) [] senderAddr
        \<lparr>sender = senderAddr, initCode = deployInitCode\<rparr> senderSlots tokenAddr []
        senderBalanceSlot None = Inr (Some senderBalanceSlot)
   \<and> scanSlot account (Some (unstaked senderAddr)) [] senderAddr
        \<lparr>sender = senderAddr, initCode = ''0x''\<rparr> senderSlots tokenAddr []
        senderBalanceSlot None = Inr None
   \<and> checkAccess account (Some (unstaked senderAddr)) [] senderAddr entryPointLower
        \<lparr>sender = senderAddr, initCode = ''0x''\<rparr> senderSlots []
        (tokenAddr, \<lparr>reads = [(senderBalanceSlot, ''0x00'')], writes = []\<rparr>) = Inr ()
   \<and> checkAccess paymaster None [] senderAddr entryPointLower
        \<lparr>sender = senderAddr, initCode = ''0x''\<rparr> senderSlots []
        (tokenAddr, \<lparr>reads = [(senderBalanceSlot, ''0x00'')], writes = []\<rparr>) = Inr ()
   \<and> checkAccess account (Some (unstaked senderAddr)) [] senderAddr entryPointLower
        \<lparr>sender = senderAddr, initCode = deployInitCode\<rparr> senderSlots []
        (tokenAddr, \<lparr>reads = [(senderBalanceSlot, ''0x00'')], writes = []\<rparr>) \<noteq> Inr ()
   \<and> checkAccess account (Some \<lparr>addr = senderAddr, stake = 2, unstakeDelaySec = 2\<rparr>) []
        senderAddr entryPointLower
        \<lparr>sender = senderAddr, initCode = deployInitCode\<rparr> senderSlots []
        (tokenAddr, \<lparr>reads = [(senderBalanceSlot, ''0x00'')], writes = []\<rparr>) = Inr ()
   \<and> parseScannerResult exampleDeps \<lparr>sender = senderAddr, initCode = ''0x''\<rparr>
        senderBalanceTrace exampleValidation exampleEntryPoint
      = Inr ([], [(tokenAddr, [(senderBalanceSlot, ''0x00'')])])
   \<and> associatedWith senderBalanceSlot senderAddr bothSlots = Inr True
   \<and> associatedWith paymasterBalanceSlot senderAddr bothSlots = Inr False
   \<and> checkAccess paymaster (Some (unstaked paymasterAddr)) [] senderAddr entryPointLower
        \<lparr>sender = senderAddr, initCode = deployInitCode\<rparr> bothSlots []
        (tokenAddr, \<lparr>reads = [(senderBalanceSlot, ''0x00''), (paymasterBalanceSlot, ''0x00'')],
                     writes = []\<rparr>) \<noteq> Inr ()
   \<and> checkAccess paymaster (Some \<lparr>addr = paymasterAddr, stake = 2, unstakeDelaySec = 2\<rparr>) []
        senderAddr entryPointLower
        \<lparr>sender = senderAddr, initCode = deployInitCode\<rparr> bothSlots []
        (tokenAddr, \<lparr>reads = [(senderBalanceSlot, ''0x00''), (paymasterBalanceSlot, ''0x00'')],
                     writes = []\<rparr>) = Inr ()
   \<and> foldE (scanSlot account (Some (unstaked senderAddr)) [] senderAddr
               \<lparr>sender = senderAddr, initCode = ''0x''\<rparr> senderSlots tokenAddr [])
        [senderBalanceSlot] None = Inr None
   \<and> parseScannerResult exampleDeps \<lparr>sender = senderAddr, initCode = deployInitCode\<rparr>
        twoBalancesTrace (fullValidation 0 0) exampleEntryPoint
      = Inl (RpcError (UnstakedAccessed paymaster tokenAddr (Some paymasterBalanceSlot))
               (Some (paymaster, Some paymasterAddr)))
   \<and> parseScannerResult exampleDeps \<lparr>sender = senderAddr, initCode = deployInitCode\<rparr>
        twoBalancesTrace (fullValidation 2 2) exampleEntryPoint
      = Inr ([], [(tokenAddr, [(senderBalanceSlot, ''0x00''), (paymasterBalanceSlot, ''0x00'')])])"
proof -
  let ?info = "\<lparr>reads = [(senderBalanceSlot, ''0x00'')], writes = []\<rparr>"
  let ?mixed = "\<lparr>reads = [(senderBalanceSlot, ''0x00''), (paymasterBalanceSlot, ''0x00'')],
                 writes = []\<rparr>"
  let ?first = "\<lparr>sender = senderAddr, initCode = deployInitCode\<rparr>"
  let ?later = "\<lparr>sender = senderAddr, initCode = ''0x''\<rparr>"
  let ?staked = "\<lparr>addr = senderAddr, stake = 2, unstakeDelaySec = 2\<rparr>"
  let ?stakedP = "\<lparr>addr = paymasterAddr, stake = 2, unstakeDelaySec = 2\<rparr>"
  have assoc: "associatedWith senderBalanceSlot senderAddr senderSlots = Inr True"
    by code_simp
  have assocB: "associatedWith senderBalanceSlot senderAddr bothSlots = Inr True"
    by code_simp
  have otherB: "associatedWith paymasterBalanceSlot senderAddr bothSlots = Inr False"
    by code_simp
  have all: "\<forall>slot \<in> set (map fst (writes ?info) @ map fst (reads ?info)).
               associatedWith slot senderAddr senderSlots = Inr True"
    using assoc by simp
  have some: "map fst (writes ?info) @ map fst (reads ?info) \<noteq> []"
    by simp
  have mem: "senderBalanceSlot \<in> set (map fst (writes ?mixed) @ map fst (reads ?mixed))"
    by simp
  have len1: "length (initCode ?first) > 2"
    by (simp add: deployInitCode_def)
  have len2: "\<not> length (initCode ?later) > 2"
    by simp
  have d: "tokenAddr \<noteq> senderAddr" "tokenAddr \<noteq> entryPointLower"
    by (simp_all add: tokenAddr_def senderAddr_def entryPointLower_def)
  note inst = sender_slot_rule[where sender_lc = senderAddr and es = senderSlots
      and slot = senderBalanceSlot and sie = "[]" and adr = tokenAddr and wr = "[]"
      and rs = None and epa = entryPointLower and info = ?info and acc = "[]"
      and slots = "[senderBalanceSlot]"]
  note instB = sender_slot_rule[where sender_lc = senderAddr and es = bothSlots
      and slot = senderBalanceSlot and sie = "[]" and adr = tokenAddr and wr = "[]"
      and rs = None and epa = entryPointLower and info = ?mixed and acc = "[]"
      and slots = "[senderBalanceSlot]" and t = paymaster and userOp = ?first]
  have r1: "scanSlot account (Some (unstaked senderAddr)) [] senderAddr ?first senderSlots
              tokenAddr [] senderBalanceSlot None = Inr (Some senderBalanceSlot)"
    using inst[of account "Some (unstaked senderAddr)" ?first] assoc len1 by simp
  have r2: "scanSlot account (Some (unstaked senderAddr)) [] senderAddr ?later senderSlots
              tokenAddr [] senderBalanceSlot None = Inr None"
    using inst[of account "Some (unstaked senderAddr)" ?later] assoc len2 by simp
  have r3: "checkAccess account (Some (unstaked senderAddr)) [] senderAddr entryPointLower
              ?later senderSlots [] (tokenAddr, ?info) = Inr ()"
    using inst[of account "Some (unstaked senderAddr)" ?later] all d len2 by blast
  have r4: "checkAccess paymaster None [] senderAddr entryPointLower
              ?later senderSlots [] (tokenAddr, ?info) = Inr ()"
    using inst[of paymaster None ?later] all d len2 by blast
  have r5: "checkAccess account (Some (unstaked senderAddr)) [] senderAddr entryPointLower
              ?first senderSlots [] (tokenAddr, ?info) \<noteq> Inr ()"
  proof -
    have "\<not> (\<exists>st. Some (unstaked senderAddr) = Some st \<and> 1 < stake st \<and>
                1 < unstakeDelaySec st)"
      by (simp add: unstaked_def)
    with inst[of account "Some (unstaked senderAddr)" ?first] all some d len1
    show ?thesis by blast
  qed
  have r6: "checkAccess account (Some ?staked) [] senderAddr entryPointLower
              ?first senderSlots [] (tokenAddr, ?info) = Inr ()"
  proof -
    have "\<exists>st. Some ?staked = Some st \<and> 1 < stake st \<and> 1 < unstakeDelaySec st"
      by simp
    with inst[of account "Some ?staked" ?first] all some d len1
    show ?thesis by blast
  qed
  have r7: "checkAccess paymaster (Some (unstaked paymasterAddr)) [] senderAddr
              entryPointLower ?first bothSlots [] (tokenAddr, ?mixed) \<noteq> Inr ()"
  proof -
    have "\<not> (\<exists>st. Some (unstaked paymasterAddr) = Some st \<and> 1 < stake st \<and>
                1 < unstakeDelaySec st)"
      by (simp add: unstaked_def)
    with instB[of "Some (unstaked paymasterAddr)"] assocB mem d len1
    show ?thesis by blast
  qed
  have r8: "checkAccess paymaster (Some ?stakedP) [] senderAddr
              entryPointLower ?first bothSlots [] (tokenAddr, ?mixed) = Inr ()"
    by code_simp
  have r9: "foldE (scanSlot account (Some (unstaked senderAddr)) [] senderAddr ?later
                     senderSlots tokenAddr []) [senderBalanceSlot] None = Inr None"
    using inst[of account "Some (unstaked senderAddr)" ?later] assoc len2 by simp
  have p: "parseScannerResult exampleDeps ?later senderBalanceTrace exampleValidation
             exampleEntryPoint
           = Inr ([], [(tokenAddr, [(senderBalanceSlot, ''0x00'')])])"
    by code_simp
  have p2: "parseScannerResult exampleDeps ?first twoBalancesTrace (fullValidation 0 0)
              exampleEntryPoint
            = Inl (RpcError (UnstakedAccessed paymaster tokenAddr (Some paymasterBalanceSlot))
                     (Some (paymaster, Some paymasterAddr)))"
    by code_simp
  have p3: "parseScannerResult exampleDeps ?first twoBalancesTrace (fullValidation 2 2)
              exampleEntryPoint
            = Inr ([], [(tokenAddr, [(senderBalanceSlot, ''0x00''),
                                     (paymasterBalanceSlot, ''0x00'')])])"
    by code_simp
  from assoc r1 r2 r3 r4 r5 r6 p assocB otherB r7 r8 r9 p2 p3 show ?thesis by blast
qed

section \<open>The returned list of addresses\<close>

text \<open>
  C3, as stated, fails: the returned list is not free of duplicates. A factory level and
  an account level that both record the size of one contract give that address twice.
\<close>

theorem addresses_duplicate_counterexample:
  "parseScannerResult exampleDeps \<lparr>sender = senderAddr, initCode = deployInitCode\<rparr>
       sharedContractTrace exampleValidation exampleEntryPoint
     = Inr ([tokenAddr, tokenAddr], [])
   \<and> \<not> distinct [tokenAddr, tokenAddr]"
  by code_simp

text \<open>
  C3, amended. On every successful run the first component is the concatenation, in level
  order, of the contract-size keys of the levels: it holds exactly the addresses for which
  some level recorded a contract-size entry, each once for every level that recorded it.
\<close>

theorem addresses_concat:
  assumes "parseScannerResult deps userOp tracerResults validationResult entryPoint
             = Inr (addresses, storageMap)"
  shows "addresses = concat (map (\<lambda>level. map fst (contractSize level))
                        (callsFromEntryPoint tracerResults))
       \<and> set addresses = (\<Union>level \<in> set (callsFromEntryPoint tracerResults).
                             fst ` set (contractSize level))
       \<and> ((\<forall>level \<in> set (callsFromEntryPoint tracerResults).
              distinct (map fst (contractSize level))) \<longrightarrow>
          (\<forall>a. count_list addresses a =
                 length (filter (\<lambda>level. a \<in> fst ` set (contractSize level))
                           (callsFromEntryPoint tracerResults))))"
proof -
  from parseScannerResult_success[OF assms]
  have eq: "addresses = concat (map (\<lambda>level. map fst (contractSize level))
                        (callsFromEntryPoint tracerResults))"
    by simp
  then have "set addresses = (\<Union>level \<in> set (callsFromEntryPoint tracerResults).
                             fst ` set (contractSize level))"
    by auto
  moreover have "\<forall>a. count_list addresses a =
                 length (filter (\<lambda>level. a \<in> fst ` set (contractSize level))
                           (callsFromEntryPoint tracerResults))"
    if "\<forall>level \<in> set (callsFromEntryPoint tracerResults).
              distinct (map fst (contractSize level))"
    using count_list_concat_keys[of "callsFromEntryPoint tracerResults"
            "\<lambda>level. map fst (contractSize level)"] that eq
    by simp
  ultimately show ?thesis using eq by blast
qed

theorem addresses_concat_witness:
  "parseScannerResult exampleDeps \<lparr>sender = senderAddr, initCode = deployInitCode\<rparr>
       sharedContractTrace exampleValidation exampleEntryPoint
     = Inr ([tokenAddr, tokenAddr], [])
   \<and> list_all (\<lambda>level. distinct (map fst (contractSize level)))
        (callsFromEntryPoint sharedContractTrace)
   \<and> set [tokenAddr, tokenAddr] = (\<Union>level \<in> set (callsFromEntryPoint sharedContractTrace).
                             fst ` set (contractSize level))
   \<and> count_list [tokenAddr, tokenAddr] tokenAddr =
        length (filter (\<lambda>level. tokenAddr \<in> fst ` set (contractSize level))
                           (callsFromEntryPoint sharedContractTrace))"
proof -
  have run: "parseScannerResult exampleDeps \<lparr>sender = senderAddr, initCode = deployInitCode\<rparr>
       sharedContractTrace exampleValidation exampleEntryPoint
     = Inr ([tokenAddr, tokenAddr], [])"
    by code_simp
  have d: "\<forall>level \<in> set (callsFromEntryPoint sharedContractTrace).
              distinct (map fst (contractSize level))"
    by (simp add: sharedContractTrace_def emptyLevel_def)
  from addresses_concat[OF run] d run show ?thesis
    unfolding list_all_iff by blast
qed

section \<open>The stake threshold\<close>

text \<open>
  C4. When a stake-requiring condition holds for an entity that has a stake record,
  \<open>requireCondAndStake\<close> passes if and only if the stake and the unstake delay are both
  strictly greater than 1; otherwise it raises the violation it was given. A stake or a
  delay equal to 1 counts as unstaked.
\<close>

theorem staked_threshold:
  "requireCondAndStake t acc (Some st) True e msg =
     (if 1 < stake st \<and> 1 < unstakeDelaySec st then Inr ()
      else Inl (RpcError msg (Some (t, Some (addr st)))))
   \<and> ((requireCondAndStake t acc (Some st) True e msg = Inr ()) =
      (1 < stake st \<and> 1 < unstakeDelaySec st))"
  by (simp add: requireCondAndStake_def requireCond_def)

theorem staked_threshold_witness:
  "requireCondAndStake paymaster [] (Some \<lparr>addr = tokenAddr, stake = 2, unstakeDelaySec = 2\<rparr>)
     True None UnstakedPaymasterContext = Inr ()
   \<and> requireCondAndStake paymaster [] (Some \<lparr>addr = tokenAddr, stake = 1, unstakeDelaySec = 2\<rparr>)
       True None UnstakedPaymasterContext
     = Inl (RpcError UnstakedPaymasterContext (Some (paymaster, Some tokenAddr)))
   \<and> requireCondAndStake paymaster [] (Some \<lparr>addr = tokenAddr, stake = 2, unstakeDelaySec = 1\<rparr>)
       True None UnstakedPaymasterContext
     = Inl (RpcError UnstakedPaymasterContext (Some (paymaster, Some tokenAddr)))"
  using staked_threshold[of paymaster "[]" "\<lparr>addr = tokenAddr, stake = 2, unstakeDelaySec = 2\<rparr>"
          None UnstakedPaymasterContext]
        staked_threshold[of paymaster "[]" "\<lparr>addr = tokenAddr, stake = 1, unstakeDelaySec = 2\<rparr>"
          None UnstakedPaymasterContext]
        staked_threshold[of paymaster "[]" "\<lparr>addr = tokenAddr, stake = 2, unstakeDelaySec = 1\<rparr>"
          None UnstakedPaymasterContext]
  by simp

section \<open>The slots of the entities\<close>

lemma addEntitySlot_slots:
  assumes "addEntitySlot kec k info es = Inr es'"
  shows "set (case es' a of None \<Rightarrow> [] | Some xs \<Rightarrow> xs) =
         set (case es a of None \<Rightarrow> [] | Some xs \<Rightarrow> xs) \<union>
         (case info of
            None \<Rightarrow> {}
          | Some i \<Rightarrow>
              if a = toLowerCase (addr i) \<and> (\<exists>p. toBytes32 a = Some p \<and> prefix p k)
              then {kec k} else {})"
  using assms
  by (auto simp: addEntitySlot_def Let_def setAdd_def split: option.splits if_splits)

lemma foldE_addEntitySlot_slots:
  assumes "foldE (addEntitySlot kec k) infos es = Inr es'"
  shows "set (case es' a of None \<Rightarrow> [] | Some xs \<Rightarrow> xs) =
         set (case es a of None \<Rightarrow> [] | Some xs \<Rightarrow> xs) \<union>
         (if (\<exists>i. Some i \<in> set infos \<and> a = toLowerCase (addr i)) \<and>
             (\<exists>p. toBytes32 a = Some p \<and> prefix p k)
          then {kec k} else {})"
  using assms
proof (induction infos arbitrary: es)
  case Nil
  then show ?case by simp
next
  case (Cons info infos)
  from Cons.prems obtain es1 where
    step: "addEntitySlot kec k info es = Inr es1" and
    rest: "foldE (addEntitySlot kec k) infos es1 = Inr es'"
    by (auto split: sum.splits)
  show ?case
    unfolding Cons.IH[OF rest] addEntitySlot_slots[OF step]
    by (cases info) auto
qed

lemma parseEntitySlots_slots_from:
  assumes "foldE (\<lambda>k. foldE (addEntitySlot kec k) infos) ks es = Inr es'"
  shows "set (case es' a of None \<Rightarrow> [] | Some xs \<Rightarrow> xs) =
         set (case es a of None \<Rightarrow> [] | Some xs \<Rightarrow> xs) \<union>
         (if \<exists>i. Some i \<in> set infos \<and> a = toLowerCase (addr i)
          then {kec k | k. k \<in> set ks \<and> (\<exists>p. toBytes32 a = Some p \<and> prefix p k)}
          else {})"
  using assms
proof (induction ks arbitrary: es)
  case Nil
  then show ?case by simp
next
  case (Cons k ks)
  from Cons.prems obtain es1 where
    step: "foldE (addEntitySlot kec k) infos es = Inr es1" and
    rest: "foldE (\<lambda>k. foldE (addEntitySlot kec k) infos) ks es1 = Inr es'"
    by (auto split: sum.splits)
  show ?case
    unfolding Cons.IH[OF rest] foldE_addEntitySlot_slots[OF step]
    by auto
qed

lemma foldE_addEntitySlot_total:
  assumes "\<forall>i. Some i \<in> set infos \<longrightarrow> toBytes32 (toLowerCase (addr i)) \<noteq> None"
  shows "\<exists>es'. foldE (addEntitySlot kec k) infos es = Inr es'"
  using assms
proof (induction infos arbitrary: es)
  case Nil
  then show ?case by simp
next
  case (Cons info infos)
  have "\<exists>es1. addEntitySlot kec k info es = Inr es1"
    using Cons.prems by (cases info) (auto simp: addEntitySlot_def Let_def)
  then obtain es1 where "addEntitySlot kec k info es = Inr es1" by blast
  moreover from Cons have "\<exists>es'. foldE (addEntitySlot kec k) infos es1 = Inr es'"
    by simp
  ultimately show ?case by simp
qed

lemma parseEntitySlots_total_from:
  assumes "\<forall>i. Some i \<in> set infos \<longrightarrow> toBytes32 (toLowerCase (addr i)) \<noteq> None"
  shows "\<exists>es'. foldE (\<lambda>k. foldE (addEntitySlot kec k) infos) ks es = Inr es'"
proof (induction ks arbitrary: es)
  case Nil
  then show ?case by simp
next
  case (Cons k ks)
  from foldE_addEntitySlot_total[OF assms] obtain es1 where
    "foldE (addEntitySlot kec k) infos es = Inr es1" by blast
  with Cons show ?case by simp
qed

text \<open>
  C5. For every list of preimages and every entity with a stake record, a slot is in the
  set that \<open>parseEntitySlots\<close> returns for the entity (under its lower-case address) if
  and only if it is the hash of an observed preimage that begins with the entity's address
  padded to 32 bytes; a preimage that only ends in a known slot adds nothing.
  \<open>parseEntitySlots\<close> returns whenever every entity address can be padded.
\<close>

theorem entity_slots_are_hashes_of_prefixed_preimages:
  "(parseEntitySlots kec stakeInfoEntities keccak_list = Inr entitySlots \<and>
    Some info \<in> set stakeInfoEntities \<longrightarrow>
      (s \<in> set (case entitySlots (toLowerCase (addr info)) of None \<Rightarrow> [] | Some xs \<Rightarrow> xs)) =
      (\<exists>k \<in> set keccak_list. \<exists>addrPadded.
         toBytes32 (toLowerCase (addr info)) = Some addrPadded \<and>
         prefix addrPadded k \<and> s = kec k))
   \<and> ((\<forall>i. Some i \<in> set stakeInfoEntities \<longrightarrow> toBytes32 (toLowerCase (addr i)) \<noteq> None) \<longrightarrow>
      (\<exists>es. parseEntitySlots kec stakeInfoEntities keccak_list = Inr es))"
proof (intro conjI impI)
  assume h: "parseEntitySlots kec stakeInfoEntities keccak_list = Inr entitySlots \<and>
    Some info \<in> set stakeInfoEntities"
  then have run: "foldE (\<lambda>k. foldE (addEntitySlot kec k) stakeInfoEntities) keccak_list
                    Map.empty = Inr entitySlots"
    by (simp add: parseEntitySlots_def)
  from h have ent: "\<exists>i. Some i \<in> set stakeInfoEntities \<and>
                      toLowerCase (addr info) = toLowerCase (addr i)"
    by blast
  show "(s \<in> set (case entitySlots (toLowerCase (addr info)) of
                     None \<Rightarrow> [] | Some xs \<Rightarrow> xs)) =
      (\<exists>k \<in> set keccak_list. \<exists>addrPadded.
         toBytes32 (toLowerCase (addr info)) = Some addrPadded \<and>
         prefix addrPadded k \<and> s = kec k)"
    unfolding parseEntitySlots_slots_from[OF run, of "toLowerCase (addr info)"]
    using ent by auto
next
  assume "\<forall>i. Some i \<in> set stakeInfoEntities \<longrightarrow> toBytes32 (toLowerCase (addr i)) \<noteq> None"
  from parseEntitySlots_total_from[OF this]
  show "\<exists>es. parseEntitySlots kec stakeInfoEntities keccak_list = Inr es"
    by (simp add: parseEntitySlots_def)
qed

theorem entity_slots_are_hashes_of_prefixed_preimages_witness:
  "\<exists>es. parseEntitySlots exampleKeccak256 exampleEntities examplePreimages = Inr es
      \<and> senderBalanceSlot \<in> set (case es senderAddr of None \<Rightarrow> [] | Some xs \<Rightarrow> xs)
      \<and> exampleKeccak256 allowancePreimage
           \<notin> set (case es senderAddr of None \<Rightarrow> [] | Some xs \<Rightarrow> xs)
      \<and> paymasterBalanceSlot \<notin> set (case es senderAddr of None \<Rightarrow> [] | Some xs \<Rightarrow> xs)
      \<and> paymasterBalanceSlot \<in> set (case es paymasterAddr of None \<Rightarrow> [] | Some xs \<Rightarrow> xs)
      \<and> (es senderAddr, es paymasterAddr, es tokenAddr)
           = (Some [senderBalanceSlot], Some [paymasterBalanceSlot], None)"
proof -
  let ?sd = "unstaked senderAddr"
  let ?pm = "unstaked ''0xBBbbBBbbBBbbBBbbBBbbBBbbBBbbBBbbBBbbBBbb''"
  let ?padS = "''0x0000000000000000000000001111111111111111111111111111111111111111''"
  let ?padP = "''0x000000000000000000000000bbbbbbbbbbbbbbbbbbbbbbbbbbbbbbbbbbbbbbbb''"
  have lowS: "toLowerCase (addr ?sd) = senderAddr"
    by code_simp
  have lowP: "toLowerCase (addr ?pm) = paymasterAddr"
    by code_simp
  have padS: "toBytes32 senderAddr = Some ?padS"
    by code_simp
  have padP: "toBytes32 paymasterAddr = Some ?padP"
    by code_simp
  have memS: "Some ?sd \<in> set exampleEntities"
    by (simp add: exampleEntities_def)
  have memP: "Some ?pm \<in> set exampleEntities"
    by (simp add: exampleEntities_def)
  have tot: "\<forall>i. Some i \<in> set exampleEntities \<longrightarrow> toBytes32 (toLowerCase (addr i)) \<noteq> None"
  proof (intro allI impI)
    fix i assume "Some i \<in> set exampleEntities"
    then have "i = ?sd \<or> i = ?pm" by (simp add: exampleEntities_def)
    then show "toBytes32 (toLowerCase (addr i)) \<noteq> None"
      using lowS lowP padS padP by auto
  qed
  note inst = entity_slots_are_hashes_of_prefixed_preimages
               [where kec = exampleKeccak256 and stakeInfoEntities = exampleEntities
                  and keccak_list = examplePreimages]
  from inst tot obtain es where
    run: "parseEntitySlots exampleKeccak256 exampleEntities examplePreimages = Inr es"
    by blast
  have inS: "senderBalancePreimage \<in> set examplePreimages"
    by (simp add: examplePreimages_def)
  have inP: "paymasterBalancePreimage \<in> set examplePreimages"
    by (simp add: examplePreimages_def)
  have preS: "prefix ?padS senderBalancePreimage
              \<and> senderBalanceSlot = exampleKeccak256 senderBalancePreimage"
    by code_simp
  have preP: "prefix ?padP paymasterBalancePreimage
              \<and> paymasterBalanceSlot = exampleKeccak256 paymasterBalancePreimage"
    by code_simp
  have notA: "list_all (\<lambda>k. \<not> (prefix ?padS k \<and>
                 exampleKeccak256 allowancePreimage = exampleKeccak256 k)) examplePreimages"
    by code_simp
  have notP: "list_all (\<lambda>k. \<not> (prefix ?padS k \<and>
                 paymasterBalanceSlot = exampleKeccak256 k)) examplePreimages"
    by code_simp
  have s1: "senderBalanceSlot \<in> set (case es senderAddr of None \<Rightarrow> [] | Some xs \<Rightarrow> xs)"
  proof -
    from inS preS padS have "\<exists>k \<in> set examplePreimages. \<exists>addrPadded.
         toBytes32 senderAddr = Some addrPadded \<and>
         prefix addrPadded k \<and> senderBalanceSlot = exampleKeccak256 k"
      by blast
    with inst[of es ?sd senderBalanceSlot] run memS show ?thesis
      unfolding lowS by blast
  qed
  have s2: "exampleKeccak256 allowancePreimage
              \<notin> set (case es senderAddr of None \<Rightarrow> [] | Some xs \<Rightarrow> xs)"
  proof -
    from notA padS have "\<not> (\<exists>k \<in> set examplePreimages. \<exists>addrPadded.
         toBytes32 senderAddr = Some addrPadded \<and>
         prefix addrPadded k \<and> exampleKeccak256 allowancePreimage = exampleKeccak256 k)"
      unfolding list_all_iff by auto
    with inst[of es ?sd "exampleKeccak256 allowancePreimage"] run memS show ?thesis
      unfolding lowS by blast
  qed
  have s3: "paymasterBalanceSlot \<notin> set (case es senderAddr of None \<Rightarrow> [] | Some xs \<Rightarrow> xs)"
  proof -
    from notP padS have "\<not> (\<exists>k \<in> set examplePreimages. \<exists>addrPadded.
         toBytes32 senderAddr = Some addrPadded \<and>
         prefix addrPadded k \<and> paymasterBalanceSlot = exampleKeccak256 k)"
      unfolding list_all_iff by auto
    with inst[of es ?sd paymasterBalanceSlot] run memS show ?thesis
      unfolding lowS by blast
  qed
  have s4: "paymasterBalanceSlot \<in> set (case es paymasterAddr of None \<Rightarrow> [] | Some xs \<Rightarrow> xs)"
  proof -
    from inP preP padP have "\<exists>k \<in> set examplePreimages. \<exists>addrPadded.
         toBytes32 paymasterAddr = Some addrPadded \<and>
         prefix addrPadded k \<and> paymasterBalanceSlot = exampleKeccak256 k"
      by blast
    with inst[of es ?pm paymasterBalanceSlot] run memP show ?thesis
      unfolding lowP by blast
  qed
  have "map_sum id (\<lambda>es. (es senderAddr, es paymasterAddr, es tokenAddr))
          (parseEntitySlots exampleKeccak256 exampleEntities examplePreimages)
        = Inr (Some [senderBalanceSlot], Some [paymasterBalanceSlot], None)"
    by code_simp
  with run have s5: "(es senderAddr, es paymasterAddr, es tokenAddr)
           = (Some [senderBalanceSlot], Some [paymasterBalanceSlot], None)"
    by simp
  from run s1 s2 s3 s4 s5 show ?thesis by blast
qed

section \<open>Calls into the entry point\<close>

text \<open>
  C6. The check of the call list passes if and only if no resolved call targets the entry
  point from another address with a method other than the deposit (\<open>depositTo\<close>, or
  the empty selector \<open>0x\<close> of a plain transfer, which the entry point receives as a
  deposit); it raises "illegal call into EntryPoint" if and only if there is such a call.
  It is the first check of \<open>parseScannerResult\<close> on a trace with a level, so such a call
  makes the whole run fail with that violation.
\<close>

theorem entry_point_call_check:
  "((checkEntryPointCalls epa callStack = Inr ()) =
      (\<forall>call \<in> set callStack.
         \<not> (ce_to call = Some epa \<and> ce_from call \<noteq> Some epa \<and>
            ce_method call \<noteq> Some ''0x'' \<and> ce_method call \<noteq> Some ''depositTo'')))
   \<and> ((\<exists>m. checkEntryPointCalls epa callStack
              = Inl (RpcError (IllegalCallIntoEntryPoint m) None)) =
      (\<exists>call \<in> set callStack.
         ce_to call = Some epa \<and> ce_from call \<noteq> Some epa \<and>
         ce_method call \<noteq> Some ''0x'' \<and> ce_method call \<noteq> Some ''depositTo''))
   \<and> (callsFromEntryPoint tracerResults \<noteq> [] \<longrightarrow>
      (\<exists>call \<in> set (parseCallStack (xfaces deps) tracerResults).
         ce_to call = Some (toLowerCase (address entryPoint)) \<and>
         ce_from call \<noteq> Some (toLowerCase (address entryPoint)) \<and>
         ce_method call \<noteq> Some ''0x'' \<and> ce_method call \<noteq> Some ''depositTo'') \<longrightarrow>
      (\<exists>m. parseScannerResult deps userOp tracerResults validationResult entryPoint
              = Inl (RpcError (IllegalCallIntoEntryPoint m) None)))"
proof (intro conjI impI)
  have pass: "(checkEntryPointCalls e cs = Inr ()) =
      (\<forall>call \<in> set cs.
         \<not> (ce_to call = Some e \<and> ce_from call \<noteq> Some e \<and>
            ce_method call \<noteq> Some ''0x'' \<and> ce_method call \<noteq> Some ''depositTo''))" for e cs
  proof (cases "find (illegalEntryPointCall e) cs")
    case None
    have r: "checkEntryPointCalls e cs = Inr ()"
      using None by (simp add: checkEntryPointCalls_find)
    have n: "\<not> (\<exists>x. x \<in> set cs \<and> illegalEntryPointCall e x)"
      using None by (simp add: find_None_iff)
    show ?thesis using r n by (auto simp: illegalEntryPointCall_def)
  next
    case (Some c)
    have r: "checkEntryPointCalls e cs \<noteq> Inr ()"
      using Some by (simp add: checkEntryPointCalls_find)
    from find_SomeD[OF Some] have "c \<in> set cs" and "illegalEntryPointCall e c"
      by simp_all
    then show ?thesis using r by (auto simp: illegalEntryPointCall_def)
  qed
  have raise: "(\<exists>m. checkEntryPointCalls e cs
              = Inl (RpcError (IllegalCallIntoEntryPoint m) None)) =
      (\<exists>call \<in> set cs.
         ce_to call = Some e \<and> ce_from call \<noteq> Some e \<and>
         ce_method call \<noteq> Some ''0x'' \<and> ce_method call \<noteq> Some ''depositTo'')" for e cs
  proof -
    have "(\<exists>m. checkEntryPointCalls e cs
              = Inl (RpcError (IllegalCallIntoEntryPoint m) None)) =
          (checkEntryPointCalls e cs \<noteq> Inr ())"
      by (auto simp: checkEntryPointCalls_find split: option.splits)
    then show ?thesis using pass[of e cs] by blast
  qed
  show "(checkEntryPointCalls epa callStack = Inr ()) =
      (\<forall>call \<in> set callStack.
         \<not> (ce_to call = Some epa \<and> ce_from call \<noteq> Some epa \<and>
            ce_method call \<noteq> Some ''0x'' \<and> ce_method call \<noteq> Some ''depositTo''))"
    by (rule pass)
  show "(\<exists>m. checkEntryPointCalls epa callStack
              = Inl (RpcError (IllegalCallIntoEntryPoint m) None)) =
      (\<exists>call \<in> set callStack.
         ce_to call = Some epa \<and> ce_from call \<noteq> Some epa \<and>
         ce_method call \<noteq> Some ''0x'' \<and> ce_method call \<noteq> Some ''depositTo'')"
    by (rule raise)
  assume ne: "callsFromEntryPoint tracerResults \<noteq> []"
    and bad: "\<exists>call \<in> set (parseCallStack (xfaces deps) tracerResults).
         ce_to call = Some (toLowerCase (address entryPoint)) \<and>
         ce_from call \<noteq> Some (toLowerCase (address entryPoint)) \<and>
         ce_method call \<noteq> Some ''0x'' \<and> ce_method call \<noteq> Some ''depositTo''"
  from bad raise obtain m where
    "checkEntryPointCalls (toLowerCase (address entryPoint))
       (parseCallStack (xfaces deps) tracerResults)
     = Inl (RpcError (IllegalCallIntoEntryPoint m) None)"
    by blast
  with ne show "\<exists>m. parseScannerResult deps userOp tracerResults validationResult entryPoint
              = Inl (RpcError (IllegalCallIntoEntryPoint m) None)"
    by (simp add: parseScannerResult_def Let_def thenE_def)
qed

theorem entry_point_call_check_witness:
  "callsFromEntryPoint entryPointCallTrace \<noteq> []
   \<and> map (\<lambda>call. (ce_to call, ce_from call, ce_method call))
        (parseCallStack (xfaces exampleDeps) entryPointCallTrace)
      = [(Some entryPointLower, Some senderAddr, Some ''0x70a08231''),
         (None, None, Some ''validateUserOp'')]
   \<and> (\<exists>m. checkEntryPointCalls (toLowerCase (address exampleEntryPoint))
             (parseCallStack (xfaces exampleDeps) entryPointCallTrace)
           = Inl (RpcError (IllegalCallIntoEntryPoint m) None))
   \<and> (\<exists>m. parseScannerResult exampleDeps \<lparr>sender = senderAddr, initCode = ''0x''\<rparr>
             entryPointCallTrace exampleValidation exampleEntryPoint
           = Inl (RpcError (IllegalCallIntoEntryPoint m) None))
   \<and> map (\<lambda>call. (ce_to call, ce_from call, ce_method call))
        (parseCallStack (xfaces exampleDeps) depositTrace)
      = [(Some entryPointLower, Some senderAddr, Some ''0x''),
         (None, None, Some ''validateUserOp'')]
   \<and> checkEntryPointCalls (toLowerCase (address exampleEntryPoint))
        (parseCallStack (xfaces exampleDeps) depositTrace) = Inr ()"
proof -
  let ?epa = "toLowerCase (address exampleEntryPoint)"
  let ?bad = "\<lambda>call. ce_to call = Some ?epa \<and> ce_from call \<noteq> Some ?epa \<and>
                ce_method call \<noteq> Some ''0x'' \<and> ce_method call \<noteq> Some ''depositTo''"
  have ne: "callsFromEntryPoint entryPointCallTrace \<noteq> []"
    by code_simp
  have cs1: "map (\<lambda>call. (ce_to call, ce_from call, ce_method call))
        (parseCallStack (xfaces exampleDeps) entryPointCallTrace)
      = [(Some entryPointLower, Some senderAddr, Some ''0x70a08231''),
         (None, None, Some ''validateUserOp'')]"
    by code_simp
  have cs2: "map (\<lambda>call. (ce_to call, ce_from call, ce_method call))
        (parseCallStack (xfaces exampleDeps) depositTrace)
      = [(Some entryPointLower, Some senderAddr, Some ''0x''),
         (None, None, Some ''validateUserOp'')]"
    by code_simp
  have epa: "?epa = entryPointLower"
    by code_simp
  have bad: "\<exists>call \<in> set (parseCallStack (xfaces exampleDeps) entryPointCallTrace). ?bad call"
  proof -
    have "list_ex ?bad (parseCallStack (xfaces exampleDeps) entryPointCallTrace)"
      by code_simp
    then show ?thesis by (simp add: list_ex_iff)
  qed
  have good: "\<forall>call \<in> set (parseCallStack (xfaces exampleDeps) depositTrace). \<not> ?bad call"
  proof -
    have "list_all (\<lambda>call. \<not> ?bad call) (parseCallStack (xfaces exampleDeps) depositTrace)"
      by code_simp
    then show ?thesis by (simp add: list_all_iff)
  qed
  note thm1 = entry_point_call_check[of ?epa "parseCallStack (xfaces exampleDeps) entryPointCallTrace"
      entryPointCallTrace exampleDeps exampleEntryPoint
      "\<lparr>sender = senderAddr, initCode = ''0x''\<rparr>" exampleValidation]
  note thm2 = entry_point_call_check[of ?epa "parseCallStack (xfaces exampleDeps) depositTrace"
      entryPointCallTrace exampleDeps exampleEntryPoint
      "\<lparr>sender = senderAddr, initCode = ''0x''\<rparr>" exampleValidation]
  from thm1 bad have r1: "\<exists>m. checkEntryPointCalls ?epa
             (parseCallStack (xfaces exampleDeps) entryPointCallTrace)
           = Inl (RpcError (IllegalCallIntoEntryPoint m) None)"
    by blast
  from thm1 bad ne have r2: "\<exists>m. parseScannerResult exampleDeps
             \<lparr>sender = senderAddr, initCode = ''0x''\<rparr>
             entryPointCallTrace exampleValidation exampleEntryPoint
           = Inl (RpcError (IllegalCallIntoEntryPoint m) None)"
    by blast
  from thm2 good have r3: "checkEntryPointCalls ?epa
        (parseCallStack (xfaces exampleDeps) depositTrace) = Inr ()"
    by blast
  from ne cs1 cs2 r1 r2 r3 show ?thesis by blast
qed

section \<open>The CREATE2 rule\<close>

text \<open>
  C7. For the factory, the CREATE2 rule passes when the opcode histogram counts at most
  one CREATE2 and raises "factory with too many CREATE2" when it counts two or more; for
  any other entity it raises a violation as soon as the histogram has a CREATE2 entry.
  Within the check of an entity: a factory level that is not out of gas and uses no banned
  opcode fails with that violation when it counts two or more, and the level of another
  entity with a CREATE2 entry always fails with a violation.
\<close>

theorem create2_rule:
  "checkCreate2 factory ops =
     (if (case map_of ops ''CREATE2'' of None \<Rightarrow> 0 | Some n \<Rightarrow> n) \<le> 1 then Inr ()
      else Inl (RpcError (TooManyCREATE2 factory) None))
   \<and> (t \<noteq> factory \<longrightarrow>
        checkCreate2 t ops =
          (if ''CREATE2'' \<in> fst ` set ops
           then Inl (RpcError (UsesBannedOpcode t ''CREATE2'') None) else Inr ()))
   \<and> (find (\<lambda>info. topLevelMethodSig info = callsFromEntryPointMethodSigs deps factory)
         (callsFromEntryPoint tracerResults) = Some lvl \<and>
       oog lvl \<noteq> Some True \<and> set (map fst (opcodes lvl)) \<inter> set bannedOpCodes = {} \<and>
       (\<exists>n. map_of (opcodes lvl) ''CREATE2'' = Some n \<and> 2 \<le> n) \<longrightarrow>
        checkEntity deps userOp tracerResults sie epa snd_lc es cs (factory, entStakes)
          = Inl (RpcError (TooManyCREATE2 factory) None))
   \<and> (t \<noteq> factory \<and>
       find (\<lambda>info. topLevelMethodSig info = callsFromEntryPointMethodSigs deps t)
         (callsFromEntryPoint tracerResults) = Some lvl \<and>
       ''CREATE2'' \<in> fst ` set (opcodes lvl) \<longrightarrow>
        (\<exists>m. checkEntity deps userOp tracerResults sie epa snd_lc es cs (t, entStakes)
               = Inl (RpcError m None)))"
proof (intro conjI impI)
  show "checkCreate2 factory ops =
     (if (case map_of ops ''CREATE2'' of None \<Rightarrow> 0 | Some n \<Rightarrow> n) \<le> 1 then Inr ()
      else Inl (RpcError (TooManyCREATE2 factory) None))"
    by (simp add: checkCreate2_def requireCond_def)
  have other: "checkCreate2 u ops' =
          (if ''CREATE2'' \<in> fst ` set ops'
           then Inl (RpcError (UsesBannedOpcode u ''CREATE2'') None) else Inr ())"
    if "u \<noteq> factory" for u ops'
    using that by (simp add: checkCreate2_def requireCond_def map_of_eq_None_iff)
  show "checkCreate2 t ops =
          (if ''CREATE2'' \<in> fst ` set ops
           then Inl (RpcError (UsesBannedOpcode t ''CREATE2'') None) else Inr ())"
    if "t \<noteq> factory"
    using that by (rule other)
  show "checkEntity deps userOp tracerResults sie epa snd_lc es cs (factory, entStakes)
          = Inl (RpcError (TooManyCREATE2 factory) None)"
    if h: "find (\<lambda>info. topLevelMethodSig info = callsFromEntryPointMethodSigs deps factory)
         (callsFromEntryPoint tracerResults) = Some lvl \<and>
       oog lvl \<noteq> Some True \<and> set (map fst (opcodes lvl)) \<inter> set bannedOpCodes = {} \<and>
       (\<exists>n. map_of (opcodes lvl) ''CREATE2'' = Some n \<and> 2 \<le> n)"
  proof -
    from h have o: "requireCond (\<not> (case oog lvl of None \<Rightarrow> False | Some b \<Rightarrow> b))
                      (RevertsOnOog factory) None = Inr ()"
      by (cases "oog lvl") (auto simp: requireCond_def)
    from h have "find (\<lambda>x. \<not> x \<notin> set bannedOpCodes) (map fst (opcodes lvl)) = None"
      by (auto simp: find_None_iff)
    then have b: "forEachE (\<lambda>opcode. requireCond (opcode \<notin> set bannedOpCodes)
                                  (UsesBannedOpcode factory opcode) None)
                    (map fst (opcodes lvl)) = Inr ()"
      by (simp add: forEachE_requireCond)
    from h have c: "checkCreate2 factory (opcodes lvl)
                      = Inl (RpcError (TooManyCREATE2 factory) None)"
      by (auto simp: checkCreate2_def requireCond_def)
    from h have f: "find (\<lambda>info. topLevelMethodSig info
                    = callsFromEntryPointMethodSigs deps factory)
                   (callsFromEntryPoint tracerResults) = Some lvl"
      by simp
    show ?thesis
      unfolding checkEntity_level[OF f] by (simp add: o b c thenE_def)
  qed
  show "\<exists>m. checkEntity deps userOp tracerResults sie epa snd_lc es cs (t, entStakes)
               = Inl (RpcError m None)"
    if h: "t \<noteq> factory \<and>
       find (\<lambda>info. topLevelMethodSig info = callsFromEntryPointMethodSigs deps t)
         (callsFromEntryPoint tracerResults) = Some lvl \<and>
       ''CREATE2'' \<in> fst ` set (opcodes lvl)"
  proof -
    from h other have c: "checkCreate2 t (opcodes lvl)
                      = Inl (RpcError (UsesBannedOpcode t ''CREATE2'') None)"
      by simp
    from h have "find (\<lambda>info. topLevelMethodSig info = callsFromEntryPointMethodSigs deps t)
                   (callsFromEntryPoint tracerResults) = Some lvl"
      by simp
    then have e: "checkEntity deps userOp tracerResults sie epa snd_lc es cs (t, entStakes) =
        thenE (requireCond (\<not> (case oog lvl of None \<Rightarrow> False | Some b \<Rightarrow> b))
                 (RevertsOnOog t) None)
       (thenE (forEachE (\<lambda>opcode. requireCond (opcode \<notin> set bannedOpCodes)
                                     (UsesBannedOpcode t opcode) None)
                 (map fst (opcodes lvl)))
              (Inl (RpcError (UsesBannedOpcode t ''CREATE2'') None)))"
      by (simp add: checkEntity_level c thenE_def)
    show ?thesis
      unfolding e forEachE_requireCond
      by (auto simp: thenE_def requireCond_def split: option.splits)
  qed
qed

theorem create2_rule_witness:
  "checkCreate2 factory [(''PUSH1'', 3), (''CREATE2'', 1)] = Inr ()
   \<and> checkCreate2 factory [(''PUSH1'', 3), (''CREATE2'', 2)]
       = Inl (RpcError (TooManyCREATE2 factory) None)
   \<and> checkCreate2 account [(''PUSH1'', 3), (''CREATE2'', 1)]
       = Inl (RpcError (UsesBannedOpcode account ''CREATE2'') None)
   \<and> checkEntity exampleDeps \<lparr>sender = senderAddr, initCode = ''0x''\<rparr>
        (create2Trace ''0x570e1a36'' 2) [] entryPointLower senderAddr Map.empty []
        (factory, Some (unstaked factoryAddr))
       = Inl (RpcError (TooManyCREATE2 factory) None)
   \<and> (\<exists>m. checkEntity exampleDeps \<lparr>sender = senderAddr, initCode = ''0x''\<rparr>
        (create2Trace ''0x3a871cdd'' 1) [] entryPointLower senderAddr Map.empty []
        (account, Some (unstaked senderAddr))
       = Inl (RpcError m None))"
proof -
  let ?uo = "\<lparr>sender = senderAddr, initCode = ''0x''\<rparr>"
  let ?lvl = "\<lambda>sig n. (emptyLevel sig)\<lparr>opcodes := [(''PUSH1'', 3), (''CREATE2'', n)],
            calls := [returnEvent]\<rparr>"
  have f1: "find (\<lambda>info. topLevelMethodSig info
                    = callsFromEntryPointMethodSigs exampleDeps factory)
              (callsFromEntryPoint (create2Trace ''0x570e1a36'' 2))
            = Some (?lvl ''0x570e1a36'' 2)"
    by (simp add: create2Trace_def exampleDeps_def emptyLevel_def)
  have f2: "find (\<lambda>info. topLevelMethodSig info
                    = callsFromEntryPointMethodSigs exampleDeps account)
              (callsFromEntryPoint (create2Trace ''0x3a871cdd'' 1))
            = Some (?lvl ''0x3a871cdd'' 1)"
    by (simp add: create2Trace_def exampleDeps_def emptyLevel_def)
  have g1: "oog (?lvl ''0x570e1a36'' 2) \<noteq> Some True"
    by (simp add: emptyLevel_def)
  have g2: "set (map fst (opcodes (?lvl ''0x570e1a36'' 2))) \<inter> set bannedOpCodes = {}"
    by (simp add: bannedOpCodes_def)
  have g3: "\<exists>n. map_of (opcodes (?lvl ''0x570e1a36'' 2)) ''CREATE2'' = Some n \<and> 2 \<le> n"
    by simp
  have g4: "''CREATE2'' \<in> fst ` set (opcodes (?lvl ''0x3a871cdd'' 1))"
    by simp
  have g5: "account \<noteq> factory"
    by simp
  note a = create2_rule[where ops = "[(''PUSH1'', 3), (''CREATE2'', 1)]" and t = account
      and deps = exampleDeps and tracerResults = "create2Trace ''0x3a871cdd'' 1"
      and lvl = "?lvl ''0x3a871cdd'' 1" and userOp = ?uo and sie = "[]"
      and epa = entryPointLower and snd_lc = senderAddr and es = Map.empty and cs = "[]"
      and entStakes = "Some (unstaked senderAddr)"]
  note b = create2_rule[where ops = "[(''PUSH1'', 3), (''CREATE2'', 2)]" and t = account
      and deps = exampleDeps and tracerResults = "create2Trace ''0x570e1a36'' 2"
      and lvl = "?lvl ''0x570e1a36'' 2" and userOp = ?uo and sie = "[]"
      and epa = entryPointLower and snd_lc = senderAddr and es = Map.empty and cs = "[]"
      and entStakes = "Some (unstaked factoryAddr)"]
  from a have r1: "checkCreate2 factory [(''PUSH1'', 3), (''CREATE2'', 1)] = Inr ()"
    by simp
  from b have r2: "checkCreate2 factory [(''PUSH1'', 3), (''CREATE2'', 2)]
       = Inl (RpcError (TooManyCREATE2 factory) None)"
    by simp
  from a g5 have r3: "checkCreate2 account [(''PUSH1'', 3), (''CREATE2'', 1)]
       = Inl (RpcError (UsesBannedOpcode account ''CREATE2'') None)"
    by simp
  from b f1 g1 g2 g3 have r4: "checkEntity exampleDeps ?uo
        (create2Trace ''0x570e1a36'' 2) [] entryPointLower senderAddr Map.empty []
        (factory, Some (unstaked factoryAddr))
       = Inl (RpcError (TooManyCREATE2 factory) None)"
    by blast
  from a f2 g4 g5 have r5: "\<exists>m. checkEntity exampleDeps ?uo
        (create2Trace ''0x3a871cdd'' 1) [] entryPointLower senderAddr Map.empty []
        (account, Some (unstaked senderAddr))
       = Inl (RpcError m None)"
    by blast
  from r1 r2 r3 r4 r5 show ?thesis by blast
qed

section \<open>The context returned by the paymaster\<close>

text \<open>
  What the context rule computes for a paymaster with a stake record: it looks for the
  first call entry with the method \<open>validatePaymasterUserOp\<close> whose \<open>to\<close> is the
  address of the stake record as given, and raises "unstaked paymaster must not return
  context" exactly when that entry decodes a context other than \<open>0x\<close> and the paymaster
  is not staked.
\<close>

lemma checkPaymasterContext_result:
  "checkPaymasterContext t acc (Some st) callStack =
     (let context = returnedContext
            (find (\<lambda>call. ce_method call = Some ''validatePaymasterUserOp'' \<and>
                           ce_to call = Some (addr st)) callStack)
      in if context \<noteq> None \<and> context \<noteq> Some ''0x'' \<and>
            \<not> (1 < stake st \<and> 1 < unstakeDelaySec st)
         then Inl (RpcError UnstakedPaymasterContext (Some (t, Some (addr st))))
         else Inr ())
   \<and> (find (\<lambda>info. topLevelMethodSig info = callsFromEntryPointMethodSigs deps paymaster)
         (callsFromEntryPoint tracerResults) = Some lvl \<and>
       checkEntity deps userOp tracerResults sie epa snd_lc es callStack (paymaster, Some st)
         = Inr () \<longrightarrow>
       (let context = returnedContext
            (find (\<lambda>call. ce_method call = Some ''validatePaymasterUserOp'' \<and>
                           ce_to call = Some (addr st)) callStack)
        in context = None \<or> context = Some ''0x'' \<or>
           (1 < stake st \<and> 1 < unstakeDelaySec st)))"
proof (intro conjI impI)
  have rule: "checkPaymasterContext u a (Some st) callStack =
     (let context = returnedContext
            (find (\<lambda>call. ce_method call = Some ''validatePaymasterUserOp'' \<and>
                           ce_to call = Some (addr st)) callStack)
      in if context \<noteq> None \<and> context \<noteq> Some ''0x'' \<and>
            \<not> (1 < stake st \<and> 1 < unstakeDelaySec st)
         then Inl (RpcError UnstakedPaymasterContext (Some (u, Some (addr st))))
         else Inr ())" for u a
    by (simp add: checkPaymasterContext_def requireCondAndStake_def requireCond_def
          entityAddrOf_def Let_def)
  show "checkPaymasterContext t acc (Some st) callStack =
     (let context = returnedContext
            (find (\<lambda>call. ce_method call = Some ''validatePaymasterUserOp'' \<and>
                           ce_to call = Some (addr st)) callStack)
      in if context \<noteq> None \<and> context \<noteq> Some ''0x'' \<and>
            \<not> (1 < stake st \<and> 1 < unstakeDelaySec st)
         then Inl (RpcError UnstakedPaymasterContext (Some (t, Some (addr st))))
         else Inr ())"
    by (rule rule)
  assume h: "find (\<lambda>info. topLevelMethodSig info = callsFromEntryPointMethodSigs deps paymaster)
         (callsFromEntryPoint tracerResults) = Some lvl \<and>
       checkEntity deps userOp tracerResults sie epa snd_lc es callStack (paymaster, Some st)
         = Inr ()"
  then have f: "find (\<lambda>info. topLevelMethodSig info
                   = callsFromEntryPointMethodSigs deps paymaster)
                 (callsFromEntryPoint tracerResults) = Some lvl"
    by simp
  from h have "checkPaymasterContext paymaster (access lvl) (Some st) callStack = Inr ()"
    unfolding checkEntity_level[OF f] thenE_Inr by simp
  then show "let context = returnedContext
            (find (\<lambda>call. ce_method call = Some ''validatePaymasterUserOp'' \<and>
                           ce_to call = Some (addr st)) callStack)
        in context = None \<or> context = Some ''0x'' \<or>
           (1 < stake st \<and> 1 < unstakeDelaySec st)"
    unfolding rule by (auto simp: Let_def split: if_splits)
qed

text \<open>
  C8. An unstaked paymaster whose \<open>validatePaymasterUserOp\<close> call returns a non-empty
  context is meant to be refused with "unstaked paymaster must not return context", and
  it is when its stake record gives the address in lower case. The rule looks the call up
  by \<open>call.to === entityAddr\<close> with the address of the stake record as given, while the
  trace has addresses in lower case: with the same address in mixed case the call is not
  found and the same trace is accepted. It also takes the first matching entry of the
  call list, where nested calls come first: when the paymaster calls its own
  \<open>validatePaymasterUserOp\<close>, which returns the empty context, the context \<open>0xbeef\<close>
  returned to the entry point is not seen and the run is accepted.
\<close>

theorem unstaked_paymaster_context_accepted:
  "toLowerCase paymasterChecksumAddr = paymasterAddr
   \<and> map (\<lambda>call. (ce_from call, ce_to call, ce_method call, returnedContext (Some call)))
        (parseCallStack paymasterInterface (paymasterTrace contextReturnData))
      = [(Some entryPointLower, Some senderAddr, Some ''validateUserOp'', None),
         (Some entryPointLower, Some paymasterAddr, Some ''validatePaymasterUserOp'',
          Some ''0xbeef'')]
   \<and> parseScannerResult paymasterDeps \<lparr>sender = senderAddr, initCode = ''0x''\<rparr>
        (paymasterTrace contextReturnData) (paymasterValidation 0 0) exampleEntryPoint
      = Inl (RpcError UnstakedPaymasterContext (Some (paymaster, Some paymasterAddr)))
   \<and> parseScannerResult paymasterDeps \<lparr>sender = senderAddr, initCode = ''0x''\<rparr>
        (paymasterTrace contextReturnData) (checksumPaymasterValidation 0 0) exampleEntryPoint
      = Inr ([], [])
   \<and> map (\<lambda>call. (ce_from call, ce_to call, ce_method call, returnedContext (Some call)))
        (parseCallStack paymasterInterface selfCallPaymasterTrace)
      = [(Some entryPointLower, Some senderAddr, Some ''validateUserOp'', None),
         (Some paymasterAddr, Some paymasterAddr, Some ''validatePaymasterUserOp'',
          Some ''0x''),
         (Some entryPointLower, Some paymasterAddr, Some ''validatePaymasterUserOp'',
          Some ''0xbeef'')]
   \<and> parseScannerResult paymasterDeps \<lparr>sender = senderAddr, initCode = ''0x''\<rparr>
        selfCallPaymasterTrace (paymasterValidation 0 0) exampleEntryPoint
      = Inr ([], [])"
  by code_simp

section \<open>The returned storage map\<close>

lemma storeReads_lookup:
  "map_of (storeReads level sm a) x =
     (case map_of sm x of
        Some v \<Rightarrow> Some v
      | None \<Rightarrow> if x = a then map_option reads (map_of (access level) a) else None)"
  by (auto simp: storeReads_def map_add_def split: option.splits)

lemma foldl_storeReads_lookup:
  "map_of (foldl (storeReads level) sm ks) x =
     (case map_of sm x of
        Some v \<Rightarrow> Some v
      | None \<Rightarrow> if x \<in> set ks then map_option reads (map_of (access level) x) else None)"
proof (induction ks arbitrary: sm)
  case Nil
  then show ?case by (simp split: option.splits)
next
  case (Cons k ks)
  show ?case
    by (simp add: Cons.IH storeReads_lookup split: option.splits)
qed

lemma level_lookup:
  "map_of (foldl (storeReads level) sm (map fst (access level))) x =
     (case map_of sm x of
        Some v \<Rightarrow> Some v
      | None \<Rightarrow> map_option reads (map_of (access level) x))"
proof (cases "x \<in> fst ` set (access level)")
  case True
  then show ?thesis by (simp add: foldl_storeReads_lookup split: option.splits)
next
  case False
  then have "map_of (access level) x = None" by (simp add: map_of_eq_None_iff)
  with False show ?thesis by (simp add: foldl_storeReads_lookup split: option.splits)
qed

lemma buildStorageMap_lookup_from:
  "map_of (foldl (\<lambda>storageMap level.
                    foldl (storeReads level) storageMap (map fst (access level)))
             sm levels) x =
     (case map_of sm x of
        Some v \<Rightarrow> Some v
      | None \<Rightarrow>
          (case find (\<lambda>level. x \<in> fst ` set (access level)) levels of
             None \<Rightarrow> None
           | Some level \<Rightarrow> map_option reads (map_of (access level) x)))"
proof (induction levels arbitrary: sm)
  case Nil
  then show ?case by (simp split: option.splits)
next
  case (Cons level levels)
  have absent: "map_of (access level) x = None" if "x \<notin> fst ` set (access level)"
    using that by (simp add: map_of_eq_None_iff)
  have present: "\<exists>info. map_of (access level) x = Some info" if "x \<in> fst ` set (access level)"
    using that by (cases "map_of (access level) x") (auto simp: map_of_eq_None_iff)
  show ?case
  proof (cases "x \<in> fst ` set (access level)")
    case True
    with present obtain info where "map_of (access level) x = Some info" by blast
    with True show ?thesis
      by (simp add: Cons.IH level_lookup split: option.splits)
  next
    case False
    with absent show ?thesis
      by (simp add: Cons.IH level_lookup split: option.splits)
  qed
qed

lemma buildStorageMap_lookup:
  "map_of (buildStorageMap levels) x =
     (case find (\<lambda>level. x \<in> fst ` set (access level)) levels of
        None \<Rightarrow> None
      | Some level \<Rightarrow> map_option reads (map_of (access level) x))"
  by (simp add: buildStorageMap_def buildStorageMap_lookup_from)

text \<open>
  C9. On every successful run, an address that is a key of the access map of some level
  is bound, in the returned storage map, to the reads of the first level (in level order)
  whose access map has it: a later level never replaces them. Such a first level exists
  exactly when some level has the address, and an address of no level is not bound.
\<close>

theorem storage_map_first_level:
  assumes "parseScannerResult deps userOp tracerResults validationResult entryPoint
             = Inr (addresses, storageMap)"
  shows "(\<forall>level info.
            find (\<lambda>l. adr \<in> fst ` set (access l)) (callsFromEntryPoint tracerResults)
              = Some level \<and>
            map_of (access level) adr = Some info \<longrightarrow>
            map_of storageMap adr = Some (reads info))
       \<and> ((\<exists>l \<in> set (callsFromEntryPoint tracerResults). adr \<in> fst ` set (access l)) =
          (\<exists>level info.
             find (\<lambda>l. adr \<in> fst ` set (access l)) (callsFromEntryPoint tracerResults)
               = Some level \<and>
             map_of (access level) adr = Some info))
       \<and> ((\<forall>l \<in> set (callsFromEntryPoint tracerResults). adr \<notin> fst ` set (access l)) \<longrightarrow>
          map_of storageMap adr = None)"
proof -
  let ?levels = "callsFromEntryPoint tracerResults"
  let ?P = "\<lambda>l. adr \<in> fst ` set (access l)"
  from parseScannerResult_success[OF assms]
  have sm: "storageMap = buildStorageMap ?levels"
    by simp
  have first: "map_of storageMap adr = Some (reads info)"
    if "find ?P ?levels = Some level" and "map_of (access level) adr = Some info"
    for level info
    using that by (simp add: sm buildStorageMap_lookup)
  have none: "map_of storageMap adr = None" if "\<forall>l \<in> set ?levels. \<not> ?P l"
  proof -
    from that have "find ?P ?levels = None" by (simp add: find_None_iff)
    then show ?thesis by (simp add: sm buildStorageMap_lookup)
  qed
  have ex: "(\<exists>l \<in> set ?levels. ?P l) =
            (\<exists>level info. find ?P ?levels = Some level \<and> map_of (access level) adr = Some info)"
  proof
    assume "\<exists>l \<in> set ?levels. ?P l"
    then obtain level where f: "find ?P ?levels = Some level"
      using find_is_Some[of _ ?levels ?P] by blast
    from find_SomeD[OF f] have "?P level" by simp
    then obtain info where "map_of (access level) adr = Some info"
      by (cases "map_of (access level) adr") (auto simp: map_of_eq_None_iff)
    with f show "\<exists>level info. find ?P ?levels = Some level \<and>
                   map_of (access level) adr = Some info"
      by blast
  next
    assume "\<exists>level info. find ?P ?levels = Some level \<and>
              map_of (access level) adr = Some info"
    then obtain level where f: "find ?P ?levels = Some level" by blast
    from find_SomeD[OF f] show "\<exists>l \<in> set ?levels. ?P l" by blast
  qed
  from first none ex show ?thesis by blast
qed

theorem storage_map_first_level_witness:
  "parseScannerResult exampleDeps \<lparr>sender = senderAddr, initCode = deployInitCode\<rparr>
       twoReadsTrace exampleValidation exampleEntryPoint
     = Inr ([], [(senderAddr, [(slotZero, ''0x01'')])])
   \<and> find (\<lambda>l. senderAddr \<in> fst ` set (access l)) (callsFromEntryPoint twoReadsTrace)
       = Some ((emptyLevel ''0x570e1a36'')\<lparr>access :=
            [(senderAddr, \<lparr>reads = [(slotZero, ''0x01'')], writes = []\<rparr>)]\<rparr>)
   \<and> map_of [(senderAddr, [(slotZero, ''0x01'')])] senderAddr = Some [(slotZero, ''0x01'')]
   \<and> map_of [(senderAddr, [(slotZero, ''0x01'')])] tokenAddr = None"
proof -
  let ?level = "(emptyLevel ''0x570e1a36'')\<lparr>access :=
            [(senderAddr, \<lparr>reads = [(slotZero, ''0x01'')], writes = []\<rparr>)]\<rparr>"
  have run: "parseScannerResult exampleDeps \<lparr>sender = senderAddr, initCode = deployInitCode\<rparr>
       twoReadsTrace exampleValidation exampleEntryPoint
     = Inr ([], [(senderAddr, [(slotZero, ''0x01'')])])"
    by code_simp
  have f: "find (\<lambda>l. senderAddr \<in> fst ` set (access l)) (callsFromEntryPoint twoReadsTrace)
       = Some ?level"
    by (simp add: twoReadsTrace_def emptyLevel_def)
  have i: "map_of (access ?level) senderAddr
             = Some \<lparr>reads = [(slotZero, ''0x01'')], writes = []\<rparr>"
    by simp
  have n: "\<forall>l \<in> set (callsFromEntryPoint twoReadsTrace). tokenAddr \<notin> fst ` set (access l)"
    by (simp add: twoReadsTrace_def emptyLevel_def senderAddr_def tokenAddr_def)
  from storage_map_first_level[OF run, of senderAddr] f i
  have a: "map_of [(senderAddr, [(slotZero, ''0x01'')])] senderAddr
             = Some [(slotZero, ''0x01'')]"
    by auto
  from storage_map_first_level[OF run, of tokenAddr] n
  have b: "map_of [(senderAddr, [(slotZero, ''0x01'')])] tokenAddr = None"
    by blast
  from run f a b show ?thesis by blast
qed

section \<open>Association of a slot with an address\<close>

lemma withinStructure_iff:
  assumes "\<forall>k \<in> set ks. BigNumber_from k \<noteq> None"
  shows "withinStructure slotN ks =
         Inr (\<exists>k \<in> set ks. \<exists>kn. BigNumber_from k = Some kn \<and> kn \<le> slotN \<and> slotN < kn + 128)"
  using assms
proof (induction ks)
  case Nil
  then show ?case by simp
next
  case (Cons k ks)
  then obtain kn where "BigNumber_from k = Some kn" by auto
  with Cons show ?case by auto
qed

lemma associatedWith_result:
  assumes "hexZeroPad adr 32 = Some padded"
    and "BigNumber_from slot = Some slotN"
    and "\<forall>ks. entitySlots adr = Some ks \<longrightarrow> (\<forall>k \<in> set ks. BigNumber_from k \<noteq> None)"
  shows "associatedWith slot adr entitySlots =
         Inr (slot = toLowerCase padded \<or>
              (\<exists>ks. entitySlots adr = Some ks \<and>
                 (\<exists>k \<in> set ks. \<exists>kn. BigNumber_from k = Some kn \<and>
                    kn \<le> slotN \<and> slotN < kn + 128)))"
proof (cases "entitySlots adr")
  case None
  with assms show ?thesis by (simp add: associatedWith_def)
next
  case (Some ks)
  with assms have "\<forall>k \<in> set ks. BigNumber_from k \<noteq> None" by blast
  from withinStructure_iff[OF this] Some assms(1,2) show ?thesis
    by (simp add: associatedWith_def)
qed

text \<open>
  What \<open>associatedWith\<close> computes: true when the slot is the address padded to 32
  bytes, and also when the number of the slot lies in the range from \<open>k\<close> up to, but not
  including, \<open>k + 128\<close> for some slot \<open>k\<close> of the set recorded under the address as it
  is passed; with no set recorded only the padded address counts. In the scan of the slots
  of an entity, a slot within the 127 slots above a slot recorded under the address of the
  stake record as given never raises the forbidden-access violation. (The numbers are
  those of \<open>BigNumber.from\<close>, which must accept the slot and the recorded slots.)
\<close>

lemma associatedWith_window:
  "(hexZeroPad adr 32 = Some padded \<and> entitySlots adr = None \<longrightarrow>
      associatedWith slot adr entitySlots = Inr (slot = toLowerCase padded))
   \<and> (hexZeroPad adr 32 = Some padded \<and> entitySlots adr = Some ks \<and>
      BigNumber_from slot = Some slotN \<and> (\<forall>k \<in> set ks. BigNumber_from k \<noteq> None) \<longrightarrow>
      associatedWith slot adr entitySlots =
        Inr (slot = toLowerCase padded \<or>
             (\<exists>k \<in> set ks. \<exists>kn. BigNumber_from k = Some kn \<and>
                kn \<le> slotN \<and> slotN < kn + 128)))
   \<and> (hexZeroPad sender_lc 32 \<noteq> None \<and> hexZeroPad (addr st) 32 \<noteq> None \<and>
      BigNumber_from slot = Some slotN \<and>
      (\<forall>a xs. entitySlots a = Some xs \<longrightarrow> (\<forall>k \<in> set xs. BigNumber_from k \<noteq> None)) \<and>
      entitySlots (addr st) = Some ks \<and>
      (\<exists>k \<in> set ks. \<exists>kn. BigNumber_from k = Some kn \<and> kn \<le> slotN \<and> slotN < kn + 128) \<longrightarrow>
      (\<exists>r. scanSlot t (Some st) sie sender_lc userOp entitySlots touched wr slot rs = Inr r \<and>
           (r = Some slot \<or> r = rs)))"
proof (intro conjI impI)
  assume "hexZeroPad adr 32 = Some padded \<and> entitySlots adr = None"
  then show "associatedWith slot adr entitySlots = Inr (slot = toLowerCase padded)"
    by (simp add: associatedWith_def)
next
  assume h: "hexZeroPad adr 32 = Some padded \<and> entitySlots adr = Some ks \<and>
      BigNumber_from slot = Some slotN \<and> (\<forall>k \<in> set ks. BigNumber_from k \<noteq> None)"
  then have "\<forall>xs. entitySlots adr = Some xs \<longrightarrow> (\<forall>k \<in> set xs. BigNumber_from k \<noteq> None)"
    by simp
  with h associatedWith_result[of adr padded slot slotN entitySlots]
  show "associatedWith slot adr entitySlots =
        Inr (slot = toLowerCase padded \<or>
             (\<exists>k \<in> set ks. \<exists>kn. BigNumber_from k = Some kn \<and>
                kn \<le> slotN \<and> slotN < kn + 128))"
    by simp
next
  assume h: "hexZeroPad sender_lc 32 \<noteq> None \<and> hexZeroPad (addr st) 32 \<noteq> None \<and>
      BigNumber_from slot = Some slotN \<and>
      (\<forall>a xs. entitySlots a = Some xs \<longrightarrow> (\<forall>k \<in> set xs. BigNumber_from k \<noteq> None)) \<and>
      entitySlots (addr st) = Some ks \<and>
      (\<exists>k \<in> set ks. \<exists>kn. BigNumber_from k = Some kn \<and> kn \<le> slotN \<and> slotN < kn + 128)"
  then obtain ps pe where ps: "hexZeroPad sender_lc 32 = Some ps"
    and pe: "hexZeroPad (addr st) 32 = Some pe"
    by auto
  from h have n: "BigNumber_from slot = Some slotN" by simp
  from h have all: "\<forall>xs. entitySlots a = Some xs \<longrightarrow> (\<forall>k \<in> set xs. BigNumber_from k \<noteq> None)"
    for a by blast
  from associatedWith_result[of sender_lc ps slot slotN entitySlots, OF ps n all[of sender_lc]] obtain bySender where
    s: "associatedWith slot sender_lc entitySlots = Inr bySender"
    by blast
  from associatedWith_result[of "addr st" pe slot slotN entitySlots, OF pe n all[of "addr st"]] h have
    e: "associatedWith slot (addr st) entitySlots = Inr True"
    by simp
  show "\<exists>r. scanSlot t (Some st) sie sender_lc userOp entitySlots touched wr slot rs = Inr r \<and>
           (r = Some slot \<or> r = rs)"
    by (simp add: scanSlot_def bindE_def s e entityAddrOf_def)
qed

text \<open>
  C10. The window of 128 slots is what \<open>associatedWith\<close> computes: for the paymaster's
  balance slot \<open>k\<close>, the slots \<open>k + 5\<close> and \<open>k + 127\<close> are associated with its
  address, \<open>k + 128\<close> and \<open>k - 1\<close> are not, and a staked paymaster that reads
  \<open>k + 5\<close> at the token is accepted. This does not hold for every entity level:
  \<open>parseEntitySlots\<close> records the slots under the lower-case address, and the scan looks
  them up under the address of the stake record as given. With the same paymaster, staked,
  and its address in mixed case, no set is found, and reading \<open>k + 5\<close>, or \<open>k\<close>
  itself, raises the forbidden-access violation.
\<close>

theorem checksum_entity_slot_forbidden:
  "map_sum id (\<lambda>es. (es paymasterAddr, es paymasterChecksumAddr))
     (parseEntitySlots exampleKeccak256
        [factoryInfo (checksumPaymasterValidation 2 2),
         senderInfo (checksumPaymasterValidation 2 2),
         paymasterInfo (checksumPaymasterValidation 2 2)]
        (keccak (paymasterReadTrace paymasterSlotPlus5)))
     = Inr (Some [paymasterBalanceSlot], None)
   \<and> associatedWith paymasterSlotPlus5 paymasterAddr paymasterSlots = Inr True
   \<and> associatedWith paymasterSlotPlus127 paymasterAddr paymasterSlots = Inr True
   \<and> associatedWith paymasterSlotPlus128 paymasterAddr paymasterSlots = Inr False
   \<and> associatedWith paymasterSlotMinus1 paymasterAddr paymasterSlots = Inr False
   \<and> associatedWith paymasterSlotPlus5 paymasterChecksumAddr paymasterSlots = Inr False
   \<and> parseScannerResult exampleDeps \<lparr>sender = senderAddr, initCode = ''0x''\<rparr>
        (paymasterReadTrace paymasterSlotPlus5) (paymasterValidation 2 2) exampleEntryPoint
      = Inr ([], [(tokenAddr, [(paymasterSlotPlus5, ''0x00'')])])
   \<and> parseScannerResult exampleDeps \<lparr>sender = senderAddr, initCode = ''0x''\<rparr>
        (paymasterReadTrace paymasterSlotPlus5) (checksumPaymasterValidation 2 2)
        exampleEntryPoint
      = Inl (RpcError (ForbiddenAccess paymaster ''read from'' tokenAddr paymasterSlotPlus5)
               (Some (paymaster, Some paymasterChecksumAddr)))
   \<and> parseScannerResult exampleDeps \<lparr>sender = senderAddr, initCode = ''0x''\<rparr>
        (paymasterReadTrace paymasterBalanceSlot) (checksumPaymasterValidation 2 2)
        exampleEntryPoint
      = Inl (RpcError (ForbiddenAccess paymaster ''read from'' tokenAddr paymasterBalanceSlot)
               (Some (paymaster, Some paymasterChecksumAddr)))"
  by code_simp

end
